theory Spec2Isabelle
  imports Complex_Main
begin

section \<open>Data model\<close>

text \<open>
  The booking engine of the gym-class application exists twice: as the route handlers of
  the server (\<^verbatim>\<open>backend/src/routes/bookings.js\<close>, with the users routes appended to the same
  file, behind the middleware of \<^verbatim>\<open>middleware/auth.js\<close>) and as the browser-local store of
  \<^verbatim>\<open>services/mockApi.ts\<close>. Both are embedded here over one store type, so that they can be
  compared.

  Calendar dates are day numbers since the epoch, instants (\<^verbatim>\<open>Date.getTime()\<close>) are
  milliseconds since the epoch; the zone of the server process and of the browser is taken
  to be UTC. JavaScript numbers are exact rationals here: the two quotients the code computes
  are only compared with small integers, where the rounding of a double cannot change the
  outcome; \<open>NaN\<close> is \<open>None\<close>.
\<close>

type_synonym date = int
type_synonym instant = int
type_synonym time_of_day = "nat \<times> nat"

datatype role = Admin | Member

datatype class_status = Published | Draft | Scheduled

datatype booking_status = Confirmed | Cancelled | Completed | LateCancelled

record user =
  u_id :: int
  email :: string
  u_role :: role
  concessions :: int
  is_active :: bool

record gym_class =
  c_id :: int
  c_time :: time_of_day
  max_capacity :: int
  c_status :: class_status
  publish_date :: "date option"
  end_date :: "date option"

record booking =
  b_id :: int
  user_id :: int
  class_id :: int
  booking_date :: date
  status :: booking_status
  used_concession :: bool
  booking_time :: instant
  cancellation_time :: "instant option"
  is_late_cancellation :: bool

text \<open>
  The three tables of the server, the three arrays of the mock. The mock's users carry no
  \<^verbatim>\<open>is_active\<close>; the mock never reads the field.
\<close>

record store =
  users :: "user list"
  classes :: "gym_class list"
  bookings :: "booking list"

text \<open>
  Every early \<^verbatim>\<open>return res.status(...)\<close> of the server and every \<^verbatim>\<open>throw new Error(...)\<close>
  of the mock is one of these values, named as in the specification's taxonomy:
  400 Validation failed, 401 of \<^verbatim>\<open>authenticateToken\<close> and the mock's Unauthorized,
  400 Invalid booking date, 404 Class not found, 400 Class not available,
  400 Insufficient concessions, 409 Already booked, 400 Class full,
  404 Booking not found / User not found, 403 Access denied / Access forbidden,
  400 Cannot cancel booking, and the 500 answer of a handler's \<^verbatim>\<open>catch\<close> block.
\<close>

datatype error =
    ValidationError
  | Unauthorized
  | InvalidBookingDate
  | ClassNotFound
  | ClassNotAvailable
  | CreditLimitExceeded
  | DuplicateBooking
  | ClassFull
  | NotFound
  | Forbidden
  | InvalidTransition
  | InternalError

section \<open>JavaScript values, dates and times\<close>

text \<open>
  The values the code compares and puts into template strings where a date is meant:
  \<^verbatim>\<open>null\<close>, a \<^verbatim>\<open>Date\<close> object, or a \<^verbatim>\<open>'YYYY-MM-DD'\<close> string; and the two shapes of a time
  string, \<^verbatim>\<open>'HH:MM'\<close> and \<^verbatim>\<open>'HH:MM:SS'\<close>.
\<close>

datatype js_value = JsNull | JsDate instant | JsIsoDate date

datatype js_time = HHMM nat nat | HHMMSS nat nat nat

text \<open>\<^verbatim>\<open>new Date(s).getTime()\<close> for a date-only ISO string \<open>s\<close>: midnight UTC of that day.\<close>

definition dateMs :: "date \<Rightarrow> instant" where
  "dateMs d = d * (1000 * 60 * 60 * 24)"

text \<open>\<^verbatim>\<open>new Date().toISOString().split('T')[0]\<close>: the UTC calendar date of an instant.\<close>

definition todayOf :: "instant \<Rightarrow> date" where
  "todayOf now = now div (1000 * 60 * 60 * 24)"

text \<open>
  What the database driver does with dates and times. A \<^verbatim>\<open>Date\<close> passed as a query
  parameter for a \<^verbatim>\<open>DATE\<close> column is the calendar date of that instant; a \<^verbatim>\<open>DATE\<close> column
  comes back as a \<^verbatim>\<open>Date\<close> object at midnight of the day (\<^verbatim>\<open>null\<close> for \<^verbatim>\<open>NULL\<close>), a \<^verbatim>\<open>TIME\<close>
  column as an \<^verbatim>\<open>'HH:MM:SS'\<close> string.
\<close>

definition storedDate :: "instant \<Rightarrow> date" where
  "storedDate t = t div (1000 * 60 * 60 * 24)"

definition pgDate :: "date \<Rightarrow> js_value" where
  "pgDate d = JsDate (dateMs d)"

definition pgDateOrNull :: "date option \<Rightarrow> js_value" where
  "pgDateOrNull x = (case x of None \<Rightarrow> JsNull | Some d \<Rightarrow> pgDate d)"

definition pgTime :: "time_of_day \<Rightarrow> js_time" where
  "pgTime t = HHMMSS (fst t) (snd t) 0"

text \<open>The mock keeps the class time as the \<^verbatim>\<open>'HH:MM'\<close> string of the class form.\<close>

definition mockTime :: "time_of_day \<Rightarrow> js_time" where
  "mockTime t = HHMM (fst t) (snd t)"

text \<open>
  \<^verbatim>\<open>a > b\<close>. Two strings are compared as strings, and two ISO dates compare as their days.
  Otherwise both operands become numbers: \<^verbatim>\<open>null\<close> is 0, a \<^verbatim>\<open>Date\<close> its time value, and
  a \<^verbatim>\<open>'YYYY-MM-DD'\<close> string, which is no numeric literal, \<open>NaN\<close>; a comparison with \<open>NaN\<close>
  is false.
\<close>

fun toNumber :: "js_value \<Rightarrow> int option" where
  "toNumber JsNull = Some 0"
| "toNumber (JsDate t) = Some t"
| "toNumber (JsIsoDate d) = None"

fun jsGreater :: "js_value \<Rightarrow> js_value \<Rightarrow> bool" where
  "jsGreater (JsIsoDate x) (JsIsoDate y) = (x > y)"
| "jsGreater a b =
     (case toNumber a of None \<Rightarrow> False
      | Some x \<Rightarrow> (case toNumber b of None \<Rightarrow> False | Some y \<Rightarrow> x > y))"

text \<open>
  \<^verbatim>\<open>new Date(`${bookingDate}T${classTime}:00`).getTime()\<close>. Only a \<^verbatim>\<open>'YYYY-MM-DD'\<close> string
  followed by an \<^verbatim>\<open>'HH:MM'\<close> string makes a date-time (\<^verbatim>\<open>'2025-11-19T07:00:00'\<close>, read in the
  local zone; the hour goes up to 23, the minute up to 59, and \<^verbatim>\<open>'24:00'\<close> is the end of
  the day). An \<^verbatim>\<open>'HH:MM:SS'\<close> string gives \<^verbatim>\<open>'...T07:00:00:00'\<close>, and a \<^verbatim>\<open>Date\<close> object is
  interpolated as \<^verbatim>\<open>'Wed Nov 19 2025 00:00:00 GMT+0000 (...)'\<close>: both are Invalid Date, whose
  time value is \<open>NaN\<close>.
\<close>

fun classDateTime :: "js_value \<Rightarrow> js_time \<Rightarrow> instant option" where
  "classDateTime (JsIsoDate d) (HHMM h m) =
     (if (h < 24 \<and> m < 60) \<or> (h = 24 \<and> m = 0)
      then Some (dateMs d + (int h * 60 + int m) * 60 * 1000) else None)"
| "classDateTime bookingDate classTime = None"

text \<open>bookings.js, \<^verbatim>\<open>isWithinBookingWindow\<close>; \<open>today\<close> is the value of \<^verbatim>\<open>new Date()\<close>.\<close>

definition isWithinBookingWindow :: "instant \<Rightarrow> instant \<Rightarrow> bool" where
  "isWithinBookingWindow today booking =
     (let diffTime = booking - today;
          diffDays = \<lceil>(of_int diffTime :: rat) / (1000 * 60 * 60 * 24)\<rceil>
      in diffDays \<ge> 0 \<and> diffDays \<le> 14)"

text \<open>bookings.js, \<^verbatim>\<open>isLateCancellation\<close>; \<open>now\<close> is the value of \<^verbatim>\<open>new Date()\<close>.\<close>

definition hoursUntilClass :: "instant \<Rightarrow> js_value \<Rightarrow> js_time \<Rightarrow> rat option" where
  "hoursUntilClass now bookingDate classTime =
     map_option (\<lambda>t. of_int (t - now) / (1000 * 60 * 60)) (classDateTime bookingDate classTime)"

definition isLateCancellation :: "instant \<Rightarrow> js_value \<Rightarrow> js_time \<Rightarrow> bool" where
  "isLateCancellation now bookingDate classTime =
     (case hoursUntilClass now bookingDate classTime of
        None \<Rightarrow> False
      | Some hours \<Rightarrow> hours \<le> 24 \<and> hours > 0)"

text \<open>
  mockApi.ts, the late check written out inside \<^verbatim>\<open>bookings.cancel\<close> (lines 644 to 647), on
  the mock's own strings.
\<close>

definition mock_isLateCancellation :: "instant \<Rightarrow> booking \<Rightarrow> gym_class \<Rightarrow> bool" where
  "mock_isLateCancellation now b gymClass =
     (case classDateTime (JsIsoDate (booking_date b)) (mockTime (c_time gymClass)) of
        None \<Rightarrow> False
      | Some classDT \<Rightarrow>
          (let hours = (of_int (classDT - now) :: rat) / (1000 * 60 * 60)
           in hours \<le> 24 \<and> hours > 0))"

section \<open>Array helpers of the mock\<close>

text \<open>\<^verbatim>\<open>Array.prototype.findIndex\<close>, with \<open>None\<close> for \<^verbatim>\<open>-1\<close>.\<close>

fun findIndex :: "('a \<Rightarrow> bool) \<Rightarrow> 'a list \<Rightarrow> nat option" where
  "findIndex P [] = None"
| "findIndex P (x # xs) = (if P x then Some 0 else map_option Suc (findIndex P xs))"

text \<open>mockApi.ts, \<^verbatim>\<open>updateUserConcessions\<close>: overwrite the balance of the first user with the id.\<close>

definition updateUserConcessions :: "int \<Rightarrow> int \<Rightarrow> store \<Rightarrow> store" where
  "updateUserConcessions userId newConcessions s =
     (case findIndex (\<lambda>u. u_id u = userId) (users s) of
        None \<Rightarrow> s
      | Some i \<Rightarrow> s\<lparr>users := (users s)[i := ((users s) ! i)\<lparr>concessions := newConcessions\<rparr>]\<rparr>)"

text \<open>
  mockApi.ts, \<^verbatim>\<open>getUserByToken\<close>: the mock knows the tokens \<^verbatim>\<open>'mock-admin-token'\<close> and
  \<^verbatim>\<open>'mock-user-token'\<close>, which it resolves by two fixed e-mail addresses; every other string
  (also the \<^verbatim>\<open>'mock-user-token-<id>'\<close> that \<^verbatim>\<open>register\<close> hands out) is no user.
\<close>

datatype mock_token = MockAdminToken | MockUserToken | OtherToken

definition getUserByToken :: "mock_token \<Rightarrow> store \<Rightarrow> user option" where
  "getUserByToken token s =
     (case token of
        MockAdminToken \<Rightarrow> find (\<lambda>u. email u = ''admin@gym.com'') (users s)
      | MockUserToken \<Rightarrow> find (\<lambda>u. email u = ''user@gym.com'') (users s)
      | OtherToken \<Rightarrow> None)"

text \<open>The balance a reader of the store sees for a user id (first row with that id).\<close>

definition balanceOf :: "int \<Rightarrow> store \<Rightarrow> int option" where
  "balanceOf uid s = map_option concessions (find (\<lambda>u. u_id u = uid) (users s))"

definition confirmedCount :: "int \<Rightarrow> date \<Rightarrow> store \<Rightarrow> nat" where
  "confirmedCount cid d s =
     length (filter (\<lambda>b. class_id b = cid \<and> booking_date b = d \<and> status b = Confirmed)
               (bookings s))"

section \<open>The server's middleware and handlers\<close>

text \<open>
  A \<^verbatim>\<open>SELECT ... WHERE\<close> is a \<open>filter\<close> over the rows, \<^verbatim>\<open>rows[0]\<close> its head, an
  \<^verbatim>\<open>UPDATE ... WHERE\<close> a \<open>map\<close> that rewrites every matching row. Each request runs alone
  from middleware to response. A handler's \<^verbatim>\<open>catch\<close> turns a thrown exception (reading
  \<^verbatim>\<open>rows[0]\<close> of an empty result, a violated \<^verbatim>\<open>UNIQUE(user_id, class_id, booking_date)\<close>)
  into \<open>InternalError\<close>. The response body (message texts) is left out.

  auth.js, \<^verbatim>\<open>authenticateToken\<close>: the bearer token is given by what \<^verbatim>\<open>jwt.verify\<close> makes of
  it, the \<^verbatim>\<open>userId\<close> of its payload, or \<open>None\<close> when there is no token or it does not
  verify. The result is \<^verbatim>\<open>req.user\<close>.
\<close>

definition authenticateToken :: "int option \<Rightarrow> store \<Rightarrow> error + user" where
  "authenticateToken token s =
     (case token of
        None \<Rightarrow> Inl Unauthorized
      | Some userId \<Rightarrow>
          (case filter (\<lambda>u. u_id u = userId) (users s) of
             [] \<Rightarrow> Inl Unauthorized
           | user # _ \<Rightarrow> if \<not> is_active user then Inl Unauthorized else Inr user))"

definition newBooking :: "instant \<Rightarrow> int \<Rightarrow> int \<Rightarrow> int \<Rightarrow> date \<Rightarrow> booking" where
  "newBooking now newId userId classId bookingDate =
     \<lparr>b_id = newId, user_id = userId, class_id = classId, booking_date = bookingDate,
      status = Confirmed, used_concession = True, booking_time = now,
      cancellation_time = None, is_late_cancellation = False\<rparr>"

text \<open>
  bookings.js, \<^verbatim>\<open>router.post('/')\<close> behind \<^verbatim>\<open>authenticateToken\<close>, \<^verbatim>\<open>requireUser\<close> and
  \<^verbatim>\<open>validateBooking\<close>. \<open>bookingDate\<close> is the \<^verbatim>\<open>Date\<close> that \<^verbatim>\<open>isISO8601().toDate()\<close> made of
  the body's string (a date or a date-time), \<open>newId\<close> the next value of the id sequence.
\<close>

definition server_create ::
  "instant \<Rightarrow> int \<Rightarrow> int option \<Rightarrow> int \<Rightarrow> instant \<Rightarrow> store \<Rightarrow> error + store" where
  "server_create now newId token classId bookingDate s =
     (case authenticateToken token s of
        Inl e \<Rightarrow> Inl e
      | Inr reqUser \<Rightarrow>
          if u_role reqUser \<noteq> Member then Inl Forbidden
          else if classId < 1 then Inl ValidationError
          else if \<not> isWithinBookingWindow now bookingDate then Inl InvalidBookingDate
          else case filter (\<lambda>c. c_id c = classId) (classes s) of
            [] \<Rightarrow> Inl ClassNotFound
          | classData # _ \<Rightarrow>
              if c_status classData = Draft \<or>
                 (c_status classData = Scheduled \<and>
                  jsGreater (pgDateOrNull (publish_date classData)) (JsIsoDate (todayOf now)))
              then Inl ClassNotAvailable
              else case filter (\<lambda>u. u_id u = u_id reqUser) (users s) of
                [] \<Rightarrow> Inl InternalError
              | userRow # _ \<Rightarrow>
                  if concessions userRow \<le> - 5 then Inl CreditLimitExceeded
                  else if filter (\<lambda>b. user_id b = u_id reqUser \<and> class_id b = classId \<and>
                             booking_date b = storedDate bookingDate \<and> status b = Confirmed)
                            (bookings s) \<noteq> []
                  then Inl DuplicateBooking
                  else if int (confirmedCount classId (storedDate bookingDate) s)
                            \<ge> max_capacity classData
                  then Inl ClassFull
                  else if filter (\<lambda>b. user_id b = u_id reqUser \<and> class_id b = classId \<and>
                             booking_date b = storedDate bookingDate) (bookings s) \<noteq> []
                  then Inl InternalError
                  else Inr (s\<lparr>bookings := bookings s @
                                [newBooking now newId (u_id reqUser) classId (storedDate bookingDate)],
                              users := map (\<lambda>u. if u_id u = u_id reqUser
                                                  then u\<lparr>concessions := concessions u - 1\<rparr> else u)
                                           (users s)\<rparr>))"

text \<open>The rows of \<^verbatim>\<open>bookings b JOIN classes c ON b.class_id = c.id WHERE b.id = $1\<close>.\<close>

definition bookingWithClass :: "int \<Rightarrow> store \<Rightarrow> (booking \<times> gym_class) list" where
  "bookingWithClass bookingId s =
     concat (map (\<lambda>b. map (Pair b) (filter (\<lambda>c. c_id c = class_id b) (classes s)))
                 (filter (\<lambda>b. b_id b = bookingId) (bookings s)))"

definition cancelRow :: "instant \<Rightarrow> bool \<Rightarrow> booking \<Rightarrow> booking" where
  "cancelRow now isLate b =
     b\<lparr>status := (if isLate then LateCancelled else Cancelled),
       cancellation_time := Some now,
       is_late_cancellation := isLate\<rparr>"

text \<open>
  bookings.js, \<^verbatim>\<open>router.patch('/:id/cancel')\<close> behind \<^verbatim>\<open>authenticateToken\<close>. The helper gets
  \<^verbatim>\<open>booking.booking_date\<close> and \<^verbatim>\<open>booking.class_time\<close> as the driver returned them.
\<close>

definition server_cancel :: "instant \<Rightarrow> int option \<Rightarrow> int \<Rightarrow> store \<Rightarrow> error + store" where
  "server_cancel now token bookingId s =
     (case authenticateToken token s of
        Inl e \<Rightarrow> Inl e
      | Inr reqUser \<Rightarrow>
          case bookingWithClass bookingId s of
            [] \<Rightarrow> Inl NotFound
          | (b, c) # _ \<Rightarrow>
              if u_role reqUser \<noteq> Admin \<and> user_id b \<noteq> u_id reqUser then Inl Forbidden
              else if status b \<noteq> Confirmed then Inl InvalidTransition
              else
                let isLate = isLateCancellation now (pgDate (booking_date b)) (pgTime (c_time c));
                    s1 = s\<lparr>bookings := map (\<lambda>x. if b_id x = bookingId
                                                 then cancelRow now isLate x else x)
                                           (bookings s)\<rparr>
                in Inr (if \<not> isLate \<and> used_concession b
                        then s1\<lparr>users := map (\<lambda>u. if u_id u = user_id b
                                                   then u\<lparr>concessions := concessions u + 1\<rparr>
                                                   else u)
                                            (users s1)\<rparr>
                        else s1))"

text \<open>
  bookings.js, \<^verbatim>\<open>router.patch('/complete-class')\<close> behind \<^verbatim>\<open>authenticateToken\<close> and
  \<^verbatim>\<open>requireAdmin\<close>: the new store and \<^verbatim>\<open>updated_bookings\<close>.
\<close>

definition server_completeClass ::
  "int option \<Rightarrow> int \<Rightarrow> instant \<Rightarrow> store \<Rightarrow> error + (nat \<times> store)" where
  "server_completeClass token classId bookingDate s =
     (case authenticateToken token s of
        Inl e \<Rightarrow> Inl e
      | Inr reqUser \<Rightarrow>
          if u_role reqUser \<noteq> Admin then Inl Forbidden
          else if classId < 1 then Inl ValidationError
          else
            let hit = (\<lambda>b. class_id b = classId \<and> booking_date b = storedDate bookingDate \<and>
                            status b = Confirmed)
            in Inr (length (filter hit (bookings s)),
                    s\<lparr>bookings := map (\<lambda>b. if hit b then b\<lparr>status := Completed\<rparr> else b)
                                       (bookings s)\<rparr>))"

text \<open>bookings.js, \<^verbatim>\<open>router.patch('/undo-complete-class')\<close>, behind the same middleware.\<close>

definition server_undoCompleteClass ::
  "int option \<Rightarrow> int \<Rightarrow> instant \<Rightarrow> store \<Rightarrow> error + (nat \<times> store)" where
  "server_undoCompleteClass token classId bookingDate s =
     (case authenticateToken token s of
        Inl e \<Rightarrow> Inl e
      | Inr reqUser \<Rightarrow>
          if u_role reqUser \<noteq> Admin then Inl Forbidden
          else if classId < 1 then Inl ValidationError
          else
            let hit = (\<lambda>b. class_id b = classId \<and> booking_date b = storedDate bookingDate \<and>
                            status b = Completed)
            in Inr (length (filter hit (bookings s)),
                    s\<lparr>bookings := map (\<lambda>b. if hit b then b\<lparr>status := Confirmed\<rparr> else b)
                                       (bookings s)\<rparr>))"

text \<open>
  The users routes, the handler of \<^verbatim>\<open>router.patch('/:id/concessions')\<close>, which the route runs
  for an admin; \<open>delta\<close> is the body's integer.
\<close>

definition server_updateConcessions :: "int \<Rightarrow> int \<Rightarrow> store \<Rightarrow> error + store" where
  "server_updateConcessions userId delta s =
     (case filter (\<lambda>u. u_id u = userId) (users s) of
        [] \<Rightarrow> Inl NotFound
      | cur # _ \<Rightarrow>
          let currentConcessions = concessions cur;
              newConcessions = currentConcessions + delta
          in Inr (s\<lparr>users := map (\<lambda>u. if u_id u = userId
                                       then u\<lparr>concessions := newConcessions\<rparr> else u)
                                (users s)\<rparr>))"

section \<open>The mock's operations\<close>

text \<open>mockApi.ts, \<^verbatim>\<open>isClassAvailableForBooking\<close>; both dates are strings there.\<close>

definition isClassAvailableForBooking :: "instant \<Rightarrow> gym_class \<Rightarrow> bool" where
  "isClassAvailableForBooking now gymClass =
     (let today = todayOf now in
      if c_status gymClass = Draft then False
      else if c_status gymClass = Published then True
      else if c_status gymClass = Scheduled \<and> publish_date gymClass \<noteq> None
      then (case publish_date gymClass of Some pd \<Rightarrow> pd \<le> today | None \<Rightarrow> False)
      else False)"

text \<open>
  contexts/BookingContext.tsx, \<^verbatim>\<open>isClassAvailableForBooking\<close>: the third copy of the helper,
  with which the booking page decides what can be booked. It alone reads the end date. (Its
  last branch, for a class without a status, has no instance in this data model.)
\<close>

definition ui_isClassAvailableForBooking :: "instant \<Rightarrow> gym_class \<Rightarrow> bool" where
  "ui_isClassAvailableForBooking now gymClass =
     (let today = todayOf now in
      if c_status gymClass = Draft then False
      else if c_status gymClass = Published
      then (case end_date gymClass of
              Some e \<Rightarrow> if e < today then False else True
            | None \<Rightarrow> True)
      else if c_status gymClass = Scheduled \<and> publish_date gymClass \<noteq> None
      then (case publish_date gymClass of
              Some pd \<Rightarrow>
                if pd > today then False
                else (case end_date gymClass of
                        Some e \<Rightarrow> if e < today then False else True
                      | None \<Rightarrow> True)
            | None \<Rightarrow> False)
      else False)"

text \<open>
  mockApi.ts, \<^verbatim>\<open>mockApi.bookings.create\<close>; the new id is \<^verbatim>\<open>Date.now()\<close>, the booking date
  the string the caller passed.
\<close>

definition mock_create ::
  "instant \<Rightarrow> int \<Rightarrow> mock_token \<Rightarrow> int \<Rightarrow> date \<Rightarrow> store \<Rightarrow> error + store" where
  "mock_create now newId token classId bookingDate s =
     (case getUserByToken token s of
        None \<Rightarrow> Inl Unauthorized
      | Some user \<Rightarrow>
          if concessions user \<le> - 5 then Inl CreditLimitExceeded
          else case find (\<lambda>c. c_id c = classId) (classes s) of
            None \<Rightarrow> Inl ClassNotAvailable
          | Some gymClass \<Rightarrow>
              if \<not> isClassAvailableForBooking now gymClass then Inl ClassNotAvailable
              else case find (\<lambda>b. user_id b = u_id user \<and> class_id b = classId \<and>
                               booking_date b = bookingDate \<and> status b = Confirmed) (bookings s) of
                Some existingBooking \<Rightarrow> Inl DuplicateBooking
              | None \<Rightarrow>
                  Inr (updateUserConcessions (u_id user) (concessions user - 1)
                         (s\<lparr>bookings := bookings s @
                               [newBooking now newId (u_id user) classId bookingDate]\<rparr>)))"

text \<open>mockApi.ts, \<^verbatim>\<open>mockApi.bookings.cancel\<close>.\<close>

definition mock_cancel :: "instant \<Rightarrow> mock_token \<Rightarrow> int \<Rightarrow> store \<Rightarrow> error + store" where
  "mock_cancel now token bookingId s =
     (case getUserByToken token s of
        None \<Rightarrow> Inl Unauthorized
      | Some user \<Rightarrow>
          case findIndex (\<lambda>b. b_id b = bookingId \<and> user_id b = u_id user) (bookings s) of
            None \<Rightarrow> Inl NotFound
          | Some bookingIndex \<Rightarrow>
              let b = bookings s ! bookingIndex in
              case find (\<lambda>c. c_id c = class_id b) (classes s) of
                None \<Rightarrow> Inl ClassNotFound
              | Some gymClass \<Rightarrow>
                  let isLate = mock_isLateCancellation now b gymClass;
                      originalUsedConcession = used_concession b;
                      s1 = s\<lparr>bookings := (bookings s)[bookingIndex := cancelRow now isLate b]\<rparr>
                  in Inr (if \<not> isLate \<and> originalUsedConcession
                          then updateUserConcessions (u_id user) (concessions user + 1) s1
                          else s1))"

text \<open>mockApi.ts, \<^verbatim>\<open>mockApi.bookings.completeClass\<close> and \<^verbatim>\<open>undoCompleteClass\<close>.\<close>

definition mock_completeClass :: "int \<Rightarrow> date \<Rightarrow> store \<Rightarrow> nat \<times> store" where
  "mock_completeClass classId bookingDate s =
     (let updatedBookings =
            map (\<lambda>b. if class_id b = classId \<and> booking_date b = bookingDate \<and> status b = Confirmed
                      then b\<lparr>status := Completed\<rparr> else b) (bookings s)
      in (length (filter (\<lambda>b. class_id b = classId \<and> booking_date b = bookingDate) updatedBookings),
          s\<lparr>bookings := updatedBookings\<rparr>))"

definition mock_undoCompleteClass :: "int \<Rightarrow> date \<Rightarrow> store \<Rightarrow> nat \<times> store" where
  "mock_undoCompleteClass classId bookingDate s =
     (let updatedBookings =
            map (\<lambda>b. if class_id b = classId \<and> booking_date b = bookingDate \<and> status b = Completed
                      then b\<lparr>status := Confirmed\<rparr> else b) (bookings s)
      in (length (filter (\<lambda>b. class_id b = classId \<and> booking_date b = bookingDate) updatedBookings),
          s\<lparr>bookings := updatedBookings\<rparr>))"

text \<open>mockApi.ts, \<^verbatim>\<open>mockApi.users.updateConcessions\<close>.\<close>

definition mock_updateConcessions :: "int \<Rightarrow> int \<Rightarrow> store \<Rightarrow> error + store" where
  "mock_updateConcessions userId delta s =
     (case findIndex (\<lambda>u. u_id u = userId) (users s) of
        None \<Rightarrow> Inl NotFound
      | Some userIndex \<Rightarrow>
          let currentConcessions = concessions (users s ! userIndex);
              newConcessions = currentConcessions + delta
          in Inr (s\<lparr>users := (users s)[userIndex :=
                                 (users s ! userIndex)\<lparr>concessions := newConcessions\<rparr>]\<rparr>))"

section \<open>Sequences of booking-lifecycle operations\<close>

text \<open>
  A request to the server carries the bearer token and, for a date, the \<^verbatim>\<open>Date\<close> the
  validator produced; a call of the mock carries the token of the browser's storage and the
  date string.
\<close>

datatype server_request =
    Create instant int "int option" int instant
  | Cancel instant "int option" int
  | CompleteClass "int option" int instant
  | UndoCompleteClass "int option" int instant

datatype mock_request =
    MockCreate instant int mock_token int date
  | MockCancel instant mock_token int
  | MockCompleteClass int date
  | MockUndoCompleteClass int date

text \<open>A rejected request leaves the store as it was.\<close>

fun server_step :: "store \<Rightarrow> server_request \<Rightarrow> store" where
  "server_step s (Create now newId tok cid t) =
     (case server_create now newId tok cid t s of Inl e \<Rightarrow> s | Inr s' \<Rightarrow> s')"
| "server_step s (Cancel now tok bid) =
     (case server_cancel now tok bid s of Inl e \<Rightarrow> s | Inr s' \<Rightarrow> s')"
| "server_step s (CompleteClass tok cid t) =
     (case server_completeClass tok cid t s of Inl e \<Rightarrow> s | Inr (n, s') \<Rightarrow> s')"
| "server_step s (UndoCompleteClass tok cid t) =
     (case server_undoCompleteClass tok cid t s of Inl e \<Rightarrow> s | Inr (n, s') \<Rightarrow> s')"

fun mock_step :: "store \<Rightarrow> mock_request \<Rightarrow> store" where
  "mock_step s (MockCreate now newId tok cid d) =
     (case mock_create now newId tok cid d s of Inl e \<Rightarrow> s | Inr s' \<Rightarrow> s')"
| "mock_step s (MockCancel now tok bid) =
     (case mock_cancel now tok bid s of Inl e \<Rightarrow> s | Inr s' \<Rightarrow> s')"
| "mock_step s (MockCompleteClass cid d) = snd (mock_completeClass cid d s)"
| "mock_step s (MockUndoCompleteClass cid d) = snd (mock_undoCompleteClass cid d s)"

definition server_run :: "store \<Rightarrow> server_request list \<Rightarrow> store" where
  "server_run s rs = foldl server_step s rs"

definition mock_run :: "store \<Rightarrow> mock_request list \<Rightarrow> store" where
  "mock_run s rs = foldl mock_step s rs"

section \<open>Invariants and example data\<close>

text \<open>The credit floor: no user's balance is below \<open>-5\<close>.\<close>

definition creditFloorOk :: "store \<Rightarrow> bool" where
  "creditFloorOk s = (\<forall>u \<in> set (users s). - 5 \<le> concessions u)"

text \<open>The primary key of the users table.\<close>

definition uniqueUserIds :: "store \<Rightarrow> bool" where
  "uniqueUserIds s = distinct (map u_id (users s))"

text \<open>The \<open>used_concession\<close> flags of the bookings, in the order of the store.\<close>

definition usedFlags :: "store \<Rightarrow> bool list" where
  "usedFlags s = map used_concession (bookings s)"

text \<open>The requests that undo the completion of a given class on a given date.\<close>

fun isUndoOf :: "int \<Rightarrow> date \<Rightarrow> server_request \<Rightarrow> bool" where
  "isUndoOf cid d (UndoCompleteClass tok cid' t) = (cid' = cid \<and> storedDate t = d)"
| "isUndoOf cid d r = False"

text \<open>
  The condition under which a class counts as bookable on date \<open>D\<close>, in the words of the
  specification's claim and not taken from the code: published, or scheduled with a publish
  date not after the current date, and, if there is an end date, \<open>D\<close> before it.
\<close>

definition spec_bookableOn :: "date \<Rightarrow> date \<Rightarrow> gym_class \<Rightarrow> bool" where
  "spec_bookableOn today D c =
     ((c_status c = Published \<or>
       (c_status c = Scheduled \<and>
        (case publish_date c of None \<Rightarrow> False | Some pd \<Rightarrow> pd \<le> today))) \<and>
      (case end_date c of None \<Rightarrow> True | Some e \<Rightarrow> D < e))"

text \<open>
  A small store for the concrete runs below: the admin and the member of the seed data, whose
  e-mail addresses the mock's two tokens name, a second member, and one published class with
  a single seat that starts at 07:00. The first member's balance is a parameter. The instant
  \<open>1700000000000\<close> used below falls on day \<open>19675\<close>, at 22:13.
\<close>

definition demoClass :: gym_class where
  "demoClass = \<lparr>c_id = 1, c_time = (7, 0), max_capacity = 1, c_status = Published,
                publish_date = None, end_date = None\<rparr>"

definition demoStore :: "int \<Rightarrow> store" where
  "demoStore b =
     \<lparr>users = [\<lparr>u_id = 1, email = ''admin@gym.com'', u_role = Admin, concessions = 10,
                 is_active = True\<rparr>,
               \<lparr>u_id = 2, email = ''user@gym.com'', u_role = Member, concessions = b,
                 is_active = True\<rparr>,
               \<lparr>u_id = 3, email = ''other@gym.com'', u_role = Member, concessions = 5,
                 is_active = True\<rparr>],
      classes = [demoClass], bookings = []\<rparr>"

text \<open>
  A scheduled class whose publish date (day 19000) has passed and whose end date (day 19670)
  lies before the day of the requests; a scheduled class that is published only on day 19700;
  and a draft class; each alone in the example store.
\<close>

definition endedClass :: gym_class where
  "endedClass = \<lparr>c_id = 1, c_time = (7, 0), max_capacity = 20, c_status = Scheduled,
                 publish_date = Some 19000, end_date = Some 19670\<rparr>"

definition futureClass :: gym_class where
  "futureClass = \<lparr>c_id = 1, c_time = (7, 0), max_capacity = 20, c_status = Scheduled,
                  publish_date = Some 19700, end_date = None\<rparr>"

definition draftClass :: gym_class where
  "draftClass = \<lparr>c_id = 1, c_time = (7, 0), max_capacity = 20, c_status = Draft,
                 publish_date = None, end_date = None\<rparr>"

definition classStore :: "gym_class \<Rightarrow> store" where
  "classStore c = (demoStore 5)\<lparr>classes := [c]\<rparr>"

section \<open>Facts about the list helpers\<close>

lemma find_filter_conv: "find P xs = (case filter P xs of [] \<Rightarrow> None | x # _ \<Rightarrow> Some x)"
  by (induction xs) auto

lemma find_map_preserving:
  "(\<And>x. P (g x) = P x) \<Longrightarrow> find P (map g xs) = map_option g (find P xs)"
  by (induction xs) auto

lemma findIndex_Some:
  "findIndex P xs = Some i \<Longrightarrow> i < length xs \<and> P (xs ! i) \<and> (\<forall>j<i. \<not> P (xs ! j))"
proof (induction xs arbitrary: i)
  case Nil
  then show ?case by simp
next
  case (Cons x xs)
  show ?case
  proof (cases "P x")
    case True
    with Cons.prems show ?thesis by simp
  next
    case False
    with Cons.prems obtain k where k: "findIndex P xs = Some k" "i = Suc k" by auto
    from Cons.IH [OF k(1)] False k(2) show ?thesis
      by (auto simp: nth_Cons split: nat.splits)
  qed
qed

lemma findIndex_find: "find P xs = map_option (nth xs) (findIndex P xs)"
  by (induction xs) (auto simp: option.map_comp comp_def)

lemma findIndex_None: "findIndex P xs = None \<longleftrightarrow> (\<forall>x\<in>set xs. \<not> P x)"
  by (induction xs) auto

lemma find_update_first:
  "findIndex P xs = Some i \<Longrightarrow> P y \<Longrightarrow> find P (xs[i := y]) = Some y"
proof (induction xs arbitrary: i)
  case Nil
  then show ?case by simp
next
  case (Cons x xs)
  then show ?case by (cases "P x") auto
qed

section \<open>The booking window\<close>



lemma storedDate_dateMs [simp]: "storedDate (dateMs d) = d"
  by (simp add: storedDate_def dateMs_def)

lemma jsGreater_pg [simp]: "jsGreater (pgDateOrNull x) (JsIsoDate y) = False"
  by (cases x) (simp_all add: pgDateOrNull_def pgDate_def)

lemma authenticateToken_Inr:
  assumes "authenticateToken tok s = Inr u"
  shows "\<exists>rest. tok = Some (u_id u) \<and> filter (\<lambda>x. u_id x = u_id u) (users s) = u # rest \<and>
           is_active u"
proof -
  from assms obtain uid where t: "tok = Some uid"
    by (cases tok) (auto simp: authenticateToken_def)
  with assms obtain rest where f: "filter (\<lambda>x. u_id x = uid) (users s) = u # rest" and a: "is_active u"
    by (auto simp: authenticateToken_def split: list.splits if_splits)
  from f have "u \<in> set (filter (\<lambda>x. u_id x = uid) (users s))" by simp
  then have "u_id u = uid" by simp
  with t f a show ?thesis by simp
qed

lemma authenticateToken_balance:
  "authenticateToken tok s = Inr u \<Longrightarrow> balanceOf (u_id u) s = Some (concessions u)"
  by (auto dest!: authenticateToken_Inr simp: balanceOf_def find_filter_conv)

lemma server_create_Inr_iff:
  "server_create now nid tok cid t s = Inr s' \<longleftrightarrow>
     (\<exists>u c rest. authenticateToken tok s = Inr u \<and> u_role u = Member \<and> 1 \<le> cid \<and>
        isWithinBookingWindow now t \<and>
        filter (\<lambda>c. c_id c = cid) (classes s) = c # rest \<and> c_status c \<noteq> Draft \<and>
        - 5 < concessions u \<and>
        filter (\<lambda>b. user_id b = u_id u \<and> class_id b = cid \<and> booking_date b = storedDate t)
               (bookings s) = [] \<and>
        int (confirmedCount cid (storedDate t) s) < max_capacity c \<and>
        s' = s\<lparr>bookings := bookings s @ [newBooking now nid (u_id u) cid (storedDate t)],
               users := map (\<lambda>x. if u_id x = u_id u
                                  then x\<lparr>concessions := concessions x - 1\<rparr> else x) (users s)\<rparr>)"
proof (cases "authenticateToken tok s")
  case (Inl e)
  then show ?thesis by (simp add: server_create_def)
next
  case (Inr u)
  from authenticateToken_Inr [OF Inr] obtain urest where
    f: "filter (\<lambda>x. u_id x = u_id u) (users s) = u # urest" by blast
  have sub: "filter (\<lambda>b. user_id b = u_id u \<and> class_id b = cid \<and> booking_date b = storedDate t)
               (bookings s) = [] \<Longrightarrow>
             filter (\<lambda>b. user_id b = u_id u \<and> class_id b = cid \<and> booking_date b = storedDate t \<and>
                 status b = Confirmed) (bookings s) = []"
    by (auto simp: filter_empty_conv)
  show ?thesis
  proof (cases "filter (\<lambda>c. c_id c = cid) (classes s)")
    case Nil
    with Inr show ?thesis by (simp add: server_create_def)
  next
    case (Cons c rest)
    with Inr f sub show ?thesis
      by (auto simp: server_create_def Let_def)
  qed
qed

lemma server_create_InrD:
  assumes "server_create now nid tok cid t s = Inr s'"
  shows "\<exists>u c rest. authenticateToken tok s = Inr u \<and> u_role u = Member \<and> 1 \<le> cid \<and>
        isWithinBookingWindow now t \<and>
        filter (\<lambda>c. c_id c = cid) (classes s) = c # rest \<and> c_status c \<noteq> Draft \<and>
        - 5 < concessions u \<and>
        filter (\<lambda>b. user_id b = u_id u \<and> class_id b = cid \<and> booking_date b = storedDate t)
               (bookings s) = [] \<and>
        int (confirmedCount cid (storedDate t) s) < max_capacity c \<and>
        users s' = map (\<lambda>x. if u_id x = u_id u
                             then x\<lparr>concessions := concessions x - 1\<rparr> else x) (users s) \<and>
        classes s' = classes s \<and>
        bookings s' = bookings s @ [newBooking now nid (u_id u) cid (storedDate t)]"
proof -
  from assms obtain u c rest where
    "authenticateToken tok s = Inr u \<and> u_role u = Member \<and> 1 \<le> cid \<and>
        isWithinBookingWindow now t \<and>
        filter (\<lambda>c. c_id c = cid) (classes s) = c # rest \<and> c_status c \<noteq> Draft \<and>
        - 5 < concessions u \<and>
        filter (\<lambda>b. user_id b = u_id u \<and> class_id b = cid \<and> booking_date b = storedDate t)
               (bookings s) = [] \<and>
        int (confirmedCount cid (storedDate t) s) < max_capacity c \<and>
        s' = s\<lparr>bookings := bookings s @ [newBooking now nid (u_id u) cid (storedDate t)],
               users := map (\<lambda>x. if u_id x = u_id u
                                  then x\<lparr>concessions := concessions x - 1\<rparr> else x) (users s)\<rparr>"
    unfolding server_create_Inr_iff by blast
  then show ?thesis
    by (intro exI [of _ u] exI [of _ c] exI [of _ rest]) simp
qed




section \<open>Late and early cancellations\<close>

text \<open>
  The class date-time of a date string and an \<^verbatim>\<open>'HH:MM'\<close> string is that time of that day;
  what the driver returns for the two columns combines to no date-time at all.
\<close>

lemma classDateTime_strings:
  "h < 24 \<Longrightarrow> m < 60 \<Longrightarrow>
   classDateTime (JsIsoDate d) (mockTime (h, m))
     = Some (d * 86400000 + int h * 3600000 + int m * 60000)"
  by (simp add: mockTime_def dateMs_def algebra_simps)

lemma classDateTime_pg [simp]: "classDateTime (pgDate d) ct = None"
  by (simp add: pgDate_def)

lemma server_never_late [simp]: "isLateCancellation now (pgDate d) ct = False"
  by (simp add: isLateCancellation_def hoursUntilClass_def)

lemma late_ms:
  assumes "classDateTime bd ct = Some T"
  shows "isLateCancellation now bd ct \<longleftrightarrow> now < T \<and> T \<le> now + 24 * 60 * 60 * 1000"
proof -
  have "(of_int (T - now) :: rat) / (1000 * 60 * 60) \<le> 24
          \<longleftrightarrow> (of_int (T - now) :: rat) \<le> of_int 86400000"
    by (simp add: field_simps)
  moreover have "(of_int (T - now) :: rat) / (1000 * 60 * 60) > 0
          \<longleftrightarrow> (of_int (T - now) :: rat) > of_int 0"
    by (simp add: field_simps)
  ultimately show ?thesis
    unfolding isLateCancellation_def hoursUntilClass_def assms of_int_le_iff of_int_less_iff
    by auto
qed

lemma mock_late_eq:
  "mock_isLateCancellation now b c
     = isLateCancellation now (JsIsoDate (booking_date b)) (mockTime (c_time c))"
  by (auto simp: mock_isLateCancellation_def isLateCancellation_def hoursUntilClass_def Let_def
      split: option.splits)

text \<open>
  On date and time strings, as the mock has them, a cancellation is late exactly when the
  hours until the class's start are more than 0 and at most 24, that is, when the class
  starts after now and not later than 24 hours from now.
\<close>

lemma late_on_strings:
  assumes "h < 24" "m < 60"
  shows "hoursUntilClass now (JsIsoDate d) (mockTime (h, m))
           = Some (of_int (d * 86400000 + int h * 3600000 + int m * 60000 - now) / 3600000)"
    and "isLateCancellation now (JsIsoDate d) (mockTime (h, m))
           \<longleftrightarrow> now < d * 86400000 + int h * 3600000 + int m * 60000 \<and>
               d * 86400000 + int h * 3600000 + int m * 60000 \<le> now + 86400000"
  using late_ms [OF classDateTime_strings [OF assms], of now]
  by (simp_all add: hoursUntilClass_def classDateTime_strings [OF assms])

text \<open>
  Claim C4. The server's cancel never classifies a cancellation as late. The helper receives
  the booking date and the class time as the driver returns them, a \<^verbatim>\<open>Date\<close> object and an
  \<^verbatim>\<open>'HH:MM:SS'\<close> string, whose combination is no date-time, so the hours until the class
  are \<open>NaN\<close> and both comparisons fail. A member books the 07:00 class of day 19680 and
  cancels one hour before its start: on the strings of the mock the hours are 1 and the
  cancellation is late (late-cancelled, balance stays 4); the server cancels early and
  refunds (cancelled, balance back to 5).
\<close>

theorem server_cancel_never_late:
  "classDateTime (JsIsoDate 19680) (HHMM 7 0) = Some 1700377200000 \<and>
   hoursUntilClass 1700373600000 (JsIsoDate 19680) (HHMM 7 0) = Some 1 \<and>
   isLateCancellation 1700373600000 (JsIsoDate 19680) (HHMM 7 0) \<and>
   hoursUntilClass 1700373600000 (pgDate 19680) (pgTime (7, 0)) = None \<and>
   \<not> isLateCancellation 1700373600000 (pgDate 19680) (pgTime (7, 0)) \<and>
   map status (bookings (server_run (demoStore 5)
      [Create 1700000000000 100 (Some 2) 1 (dateMs 19680)])) = [Confirmed] \<and>
   balanceOf 2 (server_run (demoStore 5)
      [Create 1700000000000 100 (Some 2) 1 (dateMs 19680)]) = Some 4 \<and>
   map status (bookings (server_run (demoStore 5)
      [Create 1700000000000 100 (Some 2) 1 (dateMs 19680),
       Cancel 1700373600000 (Some 2) 100])) = [Cancelled] \<and>
   map is_late_cancellation (bookings (server_run (demoStore 5)
      [Create 1700000000000 100 (Some 2) 1 (dateMs 19680),
       Cancel 1700373600000 (Some 2) 100])) = [False] \<and>
   balanceOf 2 (server_run (demoStore 5)
      [Create 1700000000000 100 (Some 2) 1 (dateMs 19680),
       Cancel 1700373600000 (Some 2) 100]) = Some 5 \<and>
   map status (bookings (mock_run (demoStore 5)
      [MockCreate 1700000000000 100 MockUserToken 1 19680,
       MockCancel 1700373600000 MockUserToken 100])) = [LateCancelled] \<and>
   balanceOf 2 (mock_run (demoStore 5)
      [MockCreate 1700000000000 100 MockUserToken 1 19680,
       MockCancel 1700373600000 MockUserToken 100]) = Some 4"
  by code_simp

section \<open>The credit floor\<close>

lemma filter_key_unique:
  assumes "distinct (map f xs)" "filter (\<lambda>x. f x = k) xs = x # rest" "u \<in> set xs" "f u = k"
  shows "u = x"
proof -
  from assms(2) have "x \<in> set (filter (\<lambda>x. f x = k) xs)" by simp
  then have "x \<in> set xs" "f x = k" by auto
  moreover from assms(1) have "inj_on f (set xs)" by (simp add: distinct_map)
  ultimately show ?thesis using assms(3,4) by (auto dest: inj_onD)
qed

lemma find_unique:
  assumes "distinct (map f xs)" "x \<in> set xs"
  shows "find (\<lambda>y. f y = f x) xs = Some x"
proof (cases "filter (\<lambda>y. f y = f x) xs")
  case Nil
  with assms(2) show ?thesis by (auto simp: filter_empty_conv)
next
  case (Cons y rest)
  from filter_key_unique [OF assms(1) Cons assms(2)] have "x = y" by simp
  with Cons show ?thesis by (simp add: find_filter_conv)
qed

lemma server_create_floor:
  assumes "uniqueUserIds s" "creditFloorOk s" "server_create now nid tok cid t s = Inr s'"
  shows "creditFloorOk s'"
proof -
  from server_create_InrD [OF assms(3)] obtain u :: user where
    a: "authenticateToken tok s = Inr u" and fl: "- 5 < concessions u"
    and us: "users s' = map (\<lambda>x. if u_id x = u_id u
                                  then x\<lparr>concessions := concessions x - 1\<rparr> else x) (users s)"
    by blast
  from authenticateToken_Inr [OF a] obtain rest where
    f: "filter (\<lambda>x. u_id x = u_id u) (users s) = u # rest" by blast
  have uq: "\<And>x. x \<in> set (users s) \<Longrightarrow> u_id x = u_id u \<Longrightarrow> x = u"
    using assms(1) f unfolding uniqueUserIds_def by (rule filter_key_unique)
  show ?thesis
    unfolding creditFloorOk_def us
  proof
    fix y
    assume "y \<in> set (map (\<lambda>x. if u_id x = u_id u
                                  then x\<lparr>concessions := concessions x - 1\<rparr> else x) (users s))"
    then obtain x where x: "x \<in> set (users s)"
      and y: "y = (if u_id x = u_id u then x\<lparr>concessions := concessions x - 1\<rparr> else x)"
      by auto
    show "- 5 \<le> concessions y"
    proof (cases "u_id x = u_id u")
      case True
      with uq [OF x] have "x = u" by simp
      with True y fl show ?thesis by simp
    next
      case False
      with y x assms(2) show ?thesis by (simp add: creditFloorOk_def)
    qed
  qed
qed

lemma map_u_id_update:
  "map u_id (map (\<lambda>x. if u_id x = k then x\<lparr>concessions := f (concessions x)\<rparr> else x) xs)
     = map u_id xs"
  by (induction xs) auto

lemma server_cancel_ok:
  assumes "server_cancel now tok bid s = Inr s'"
  shows "\<exists>u b c rest. authenticateToken tok s = Inr u \<and>
           bookingWithClass bid s = (b, c) # rest \<and>
           (u_role u = Admin \<or> user_id b = u_id u) \<and> status b = Confirmed \<and>
           bookings s' = map (\<lambda>x. if b_id x = bid then cancelRow now False x else x) (bookings s) \<and>
           classes s' = classes s \<and>
           users s' = (if used_concession b
                       then map (\<lambda>x. if u_id x = user_id b
                                      then x\<lparr>concessions := concessions x + 1\<rparr> else x) (users s)
                       else users s)"
proof -
  from assms obtain u where a: "authenticateToken tok s = Inr u"
    by (cases "authenticateToken tok s") (auto simp: server_cancel_def)
  with assms obtain b c rest where r: "bookingWithClass bid s = (b, c) # rest"
    by (auto simp: server_cancel_def split: list.splits)
  show ?thesis
    apply (rule exI [of _ u], rule exI [of _ b], rule exI [of _ c], rule exI [of _ rest])
    using assms a r by (auto simp: server_cancel_def Let_def split: if_splits)
qed

lemma server_cancel_floor:
  assumes "creditFloorOk s" "server_cancel now tok bid s = Inr s'"
  shows "creditFloorOk s'"
proof -
  from server_cancel_ok [OF assms(2)] obtain k where
    "users s' = map (\<lambda>x. if u_id x = k then x\<lparr>concessions := concessions x + 1\<rparr> else x) (users s)
     \<or> users s' = users s"
    by (auto split: if_splits)
  with assms(1) show ?thesis
    unfolding creditFloorOk_def by fastforce
qed

lemma server_complete_state:
  "server_completeClass tok cid t s = Inr (n, s') \<Longrightarrow>
     users s' = users s \<and> classes s' = classes s \<and>
     bookings s' = map (\<lambda>b. if class_id b = cid \<and> booking_date b = storedDate t \<and>
                               status b = Confirmed
                            then b\<lparr>status := Completed\<rparr> else b) (bookings s)"
  by (cases "authenticateToken tok s")
     (auto simp: server_completeClass_def Let_def split: if_splits)

lemma server_undo_state:
  "server_undoCompleteClass tok cid t s = Inr (n, s') \<Longrightarrow>
     users s' = users s \<and> classes s' = classes s \<and>
     bookings s' = map (\<lambda>b. if class_id b = cid \<and> booking_date b = storedDate t \<and>
                               status b = Completed
                            then b\<lparr>status := Confirmed\<rparr> else b) (bookings s)"
  by (cases "authenticateToken tok s")
     (auto simp: server_undoCompleteClass_def Let_def split: if_splits)

lemma server_step_ids: "map u_id (users (server_step s r)) = map u_id (users s)"
proof (cases r)
  case (Create now nid tok cid t)
  show ?thesis
  proof (cases "server_create now nid tok cid t s")
    case (Inl e)
    with Create show ?thesis by simp
  next
    case (Inr s')
    from server_create_InrD [OF Inr] obtain u :: user where
      "users s' = map (\<lambda>x. if u_id x = u_id u
                              then x\<lparr>concessions := concessions x - 1\<rparr> else x) (users s)"
      by blast
    then have "map u_id (users s') = map u_id (users s)"
      using map_u_id_update [of "u_id u" "\<lambda>c. c - 1" "users s"] by simp
    with Create Inr show ?thesis by simp
  qed
next
  case (Cancel now tok bid)
  show ?thesis
  proof (cases "server_cancel now tok bid s")
    case (Inl e)
    with Cancel show ?thesis by simp
  next
    case (Inr s')
    from server_cancel_ok [OF Inr] obtain k where
      "users s' = map (\<lambda>x. if u_id x = k
                              then x\<lparr>concessions := concessions x + 1\<rparr> else x) (users s)
       \<or> users s' = users s"
      by (auto split: if_splits)
    then have "map u_id (users s') = map u_id (users s)"
      using map_u_id_update [of k "\<lambda>c. c + 1" "users s"] by auto
    with Cancel Inr show ?thesis by simp
  qed
next
  case (CompleteClass tok cid t)
  then show ?thesis by (auto split: sum.splits dest: server_complete_state)
next
  case (UndoCompleteClass tok cid t)
  then show ?thesis by (auto split: sum.splits dest: server_undo_state)
qed

lemma server_step_floor:
  assumes "uniqueUserIds s" "creditFloorOk s"
  shows "creditFloorOk (server_step s r)"
proof (cases r)
  case (Create now nid tok cid t)
  with assms show ?thesis
    by (auto split: sum.splits dest: server_create_floor)
next
  case (Cancel now tok bid)
  with assms show ?thesis
    by (auto split: sum.splits dest: server_cancel_floor)
next
  case (CompleteClass tok cid t)
  with assms show ?thesis
    by (auto simp: creditFloorOk_def split: sum.splits dest: server_complete_state)
next
  case (UndoCompleteClass tok cid t)
  with assms show ?thesis
    by (auto simp: creditFloorOk_def split: sum.splits dest: server_undo_state)
qed

lemma server_run_floor:
  "uniqueUserIds s \<Longrightarrow> creditFloorOk s \<Longrightarrow> creditFloorOk (server_run s rs)"
  unfolding server_run_def
proof (induction rs arbitrary: s)
  case Nil
  then show ?case by simp
next
  case (Cons r rs)
  have "uniqueUserIds (server_step s r)"
    using Cons.prems(1) by (simp add: uniqueUserIds_def server_step_ids)
  moreover have "creditFloorOk (server_step s r)"
    using Cons.prems by (rule server_step_floor)
  ultimately show ?case using Cons.IH by simp
qed

lemma mock_create_ok:
  assumes "mock_create now nid tok cid d s = Inr s'"
  shows "\<exists>user gymClass. getUserByToken tok s = Some user \<and> - 5 < concessions user \<and>
           find (\<lambda>c. c_id c = cid) (classes s) = Some gymClass \<and>
           isClassAvailableForBooking now gymClass \<and>
           find (\<lambda>b. user_id b = u_id user \<and> class_id b = cid \<and> booking_date b = d \<and>
                      status b = Confirmed) (bookings s) = None \<and>
           s' = updateUserConcessions (u_id user) (concessions user - 1)
                  (s\<lparr>bookings := bookings s @ [newBooking now nid (u_id user) cid d]\<rparr>)"
  using assms
  by (auto simp: mock_create_def split: option.splits if_splits)

lemma mock_cancel_ok:
  assumes "mock_cancel now tok bid s = Inr s'"
  shows "\<exists>user i gymClass. getUserByToken tok s = Some user \<and>
           findIndex (\<lambda>b. b_id b = bid \<and> user_id b = u_id user) (bookings s) = Some i \<and>
           find (\<lambda>c. c_id c = class_id (bookings s ! i)) (classes s) = Some gymClass \<and>
           s' = (let isLate = mock_isLateCancellation now (bookings s ! i) gymClass;
                     s1 = s\<lparr>bookings := (bookings s)[i := cancelRow now isLate (bookings s ! i)]\<rparr>
                 in if \<not> isLate \<and> used_concession (bookings s ! i)
                    then updateUserConcessions (u_id user) (concessions user + 1) s1 else s1)"
  using assms
  by (auto simp: mock_cancel_def Let_def split: option.splits if_splits)

lemma updateUserConcessions_floor:
  assumes "creditFloorOk s" "- 5 \<le> n"
  shows "creditFloorOk (updateUserConcessions k n s)"
proof -
  have "\<And>i u. u \<in> set ((users s)[i := (users s ! i)\<lparr>concessions := n\<rparr>]) \<Longrightarrow> - 5 \<le> concessions u"
  proof -
    fix i u assume "u \<in> set ((users s)[i := (users s ! i)\<lparr>concessions := n\<rparr>])"
    then have "u = (users s ! i)\<lparr>concessions := n\<rparr> \<or> u \<in> set (users s)"
      using set_update_subset_insert [of "users s" i] by auto
    with assms show "- 5 \<le> concessions u" by (auto simp: creditFloorOk_def)
  qed
  with assms(1) show ?thesis
    by (auto simp: updateUserConcessions_def creditFloorOk_def split: option.splits)
qed

lemma getUserByToken_SomeD:
  "getUserByToken tok s = Some user \<Longrightarrow> user \<in> set (users s)"
  by (cases tok) (auto simp: getUserByToken_def find_Some_iff)

lemma creditFloorOk_bookings [simp]: "creditFloorOk (s\<lparr>bookings := bs\<rparr>) = creditFloorOk s"
  by (simp add: creditFloorOk_def)

lemma mock_create_floor:
  assumes "creditFloorOk s" "mock_create now nid tok cid d s = Inr s'"
  shows "creditFloorOk s'"
proof -
  from mock_create_ok [OF assms(2)] obtain user :: user where
    u: "- 5 < concessions user"
    and s': "s' = updateUserConcessions (u_id user) (concessions user - 1)
                  (s\<lparr>bookings := bookings s @ [newBooking now nid (u_id user) cid d]\<rparr>)"
    by blast
  show ?thesis unfolding s'
    using assms(1) u by (intro updateUserConcessions_floor) simp_all
qed

lemma mock_cancel_floor:
  assumes "creditFloorOk s" "mock_cancel now tok bid s = Inr s'"
  shows "creditFloorOk s'"
proof -
  from mock_cancel_ok [OF assms(2)] obtain user :: user and i and gymClass :: gym_class where
    u: "getUserByToken tok s = Some user"
    and s': "s' = (let isLate = mock_isLateCancellation now (bookings s ! i) gymClass;
                     s1 = s\<lparr>bookings := (bookings s)[i := cancelRow now isLate (bookings s ! i)]\<rparr>
                 in if \<not> isLate \<and> used_concession (bookings s ! i)
                    then updateUserConcessions (u_id user) (concessions user + 1) s1 else s1)"
    by blast
  from getUserByToken_SomeD [OF u] assms(1) have "- 5 \<le> concessions user + 1"
    by (auto simp: creditFloorOk_def)
  then show ?thesis unfolding s' Let_def
    using assms(1) by (auto intro!: updateUserConcessions_floor)
qed

lemma mock_step_floor:
  assumes "creditFloorOk s"
  shows "creditFloorOk (mock_step s r)"
proof (cases r)
  case (MockCreate now nid tok cid d)
  with assms show ?thesis
    by (auto split: sum.splits dest: mock_create_floor)
next
  case (MockCancel now tok bid)
  with assms show ?thesis
    by (auto split: sum.splits dest: mock_cancel_floor)
next
  case (MockCompleteClass cid d)
  with assms show ?thesis
    by (simp add: mock_completeClass_def Let_def)
next
  case (MockUndoCompleteClass cid d)
  with assms show ?thesis
    by (simp add: mock_undoCompleteClass_def Let_def)
qed

lemma mock_run_floor: "creditFloorOk s \<Longrightarrow> creditFloorOk (mock_run s rs)"
  unfolding mock_run_def
  by (induction rs arbitrary: s) (simp_all add: mock_step_floor)

lemma find_update_irrelevant:
  "\<not> P (xs ! i) \<Longrightarrow> \<not> P y \<Longrightarrow> find P (xs[i := y]) = find P xs"
proof (induction xs arbitrary: i)
  case Nil
  then show ?case by simp
next
  case (Cons x xs)
  then show ?case by (cases i) auto
qed

lemma balanceOf_bookings [simp]: "balanceOf uid (s\<lparr>bookings := bs\<rparr>) = balanceOf uid s"
  by (simp add: balanceOf_def)

lemma balanceOf_updateUserConcessions:
  "balanceOf uid (updateUserConcessions k n s)
     = (if uid = k then map_option (\<lambda>_. n) (balanceOf uid s) else balanceOf uid s)"
proof (cases "findIndex (\<lambda>u. u_id u = k) (users s)")
  case None
  then have "find (\<lambda>u. u_id u = k) (users s) = None" by (simp add: findIndex_find)
  with None show ?thesis by (simp add: updateUserConcessions_def balanceOf_def)
next
  case (Some i)
  from findIndex_Some [OF Some] have k: "u_id (users s ! i) = k" by simp
  show ?thesis
  proof (cases "uid = k")
    case True
    have "find (\<lambda>u. u_id u = k) ((users s)[i := (users s ! i)\<lparr>concessions := n\<rparr>])
            = Some ((users s ! i)\<lparr>concessions := n\<rparr>)"
      using Some k by (intro find_update_first) simp_all
    moreover have "find (\<lambda>u. u_id u = k) (users s) = Some (users s ! i)"
      using Some by (simp add: findIndex_find)
    ultimately show ?thesis using True Some
      by (simp add: updateUserConcessions_def balanceOf_def)
  next
    case False
    have "find (\<lambda>u. u_id u = uid) ((users s)[i := (users s ! i)\<lparr>concessions := n\<rparr>])
            = find (\<lambda>u. u_id u = uid) (users s)"
      using False k by (intro find_update_irrelevant) simp_all
    with False Some show ?thesis
      by (simp add: updateUserConcessions_def balanceOf_def)
  qed
qed

lemma balance_after_update_all:
  "map_option concessions (find (\<lambda>u. u_id u = uid)
       (map (\<lambda>u. if u_id u = k then u\<lparr>concessions := f (concessions u)\<rparr> else u) xs))
     = (if uid = k then map_option f (map_option concessions (find (\<lambda>u. u_id u = uid) xs))
        else map_option concessions (find (\<lambda>u. u_id u = uid) xs))"
  by (induction xs) auto

lemma server_create_balance:
  assumes "server_create now nid tok cid t s = Inr s'"
  shows "\<exists>u. authenticateToken tok s = Inr u \<and> balanceOf (u_id u) s = Some (concessions u) \<and>
             - 5 < concessions u \<and> balanceOf (u_id u) s' = Some (concessions u - 1) \<and>
             (\<forall>uid. uid \<noteq> u_id u \<longrightarrow> balanceOf uid s' = balanceOf uid s)"
proof -
  from server_create_InrD [OF assms] obtain u :: user where
    a: "authenticateToken tok s = Inr u" and fl: "- 5 < concessions u"
    and us: "users s' = map (\<lambda>x. if u_id x = u_id u
                                  then x\<lparr>concessions := concessions x - 1\<rparr> else x) (users s)"
    by blast
  have b: "balanceOf (u_id u) s = Some (concessions u)"
    using a by (rule authenticateToken_balance)
  have "\<And>uid. balanceOf uid s' = (if uid = u_id u then map_option (\<lambda>b. b - 1) (balanceOf uid s)
                                    else balanceOf uid s)"
    unfolding balanceOf_def us by (rule balance_after_update_all)
  with a b fl show ?thesis by auto
qed

lemma mock_create_balance:
  assumes "uniqueUserIds s" "mock_create now nid tok cid d s = Inr s'"
  shows "\<exists>u. getUserByToken tok s = Some u \<and> balanceOf (u_id u) s = Some (concessions u) \<and>
             - 5 < concessions u \<and> balanceOf (u_id u) s' = Some (concessions u - 1) \<and>
             (\<forall>uid. uid \<noteq> u_id u \<longrightarrow> balanceOf uid s' = balanceOf uid s)"
proof -
  from mock_create_ok [OF assms(2)] obtain user :: user where
    g: "getUserByToken tok s = Some user" and u: "- 5 < concessions user"
    and s': "s' = updateUserConcessions (u_id user) (concessions user - 1)
                  (s\<lparr>bookings := bookings s @ [newBooking now nid (u_id user) cid d]\<rparr>)"
    by blast
  have "find (\<lambda>y. u_id y = u_id user) (users s) = Some user"
    using assms(1) getUserByToken_SomeD [OF g] unfolding uniqueUserIds_def by (rule find_unique)
  then have "balanceOf (u_id user) s = Some (concessions user)" by (simp add: balanceOf_def)
  with g u show ?thesis unfolding s' by (auto simp: balanceOf_updateUserConcessions)
qed

lemma server_create_CreditLimitExceeded:
  "server_create now nid tok cid t s = Inl CreditLimitExceeded \<longleftrightarrow>
     (\<exists>u c rest. authenticateToken tok s = Inr u \<and> u_role u = Member \<and> 1 \<le> cid \<and>
        isWithinBookingWindow now t \<and>
        filter (\<lambda>c. c_id c = cid) (classes s) = c # rest \<and> c_status c \<noteq> Draft \<and>
        concessions u \<le> - 5)"
proof (cases "authenticateToken tok s")
  case (Inl e)
  then show ?thesis by (auto simp: server_create_def authenticateToken_def split: option.splits list.splits if_splits)
next
  case (Inr u)
  from authenticateToken_Inr [OF Inr] obtain urest where
    f: "filter (\<lambda>x. u_id x = u_id u) (users s) = u # urest" by blast
  show ?thesis
  proof (cases "filter (\<lambda>c. c_id c = cid) (classes s)")
    case Nil
    with Inr show ?thesis by (simp add: server_create_def)
  next
    case (Cons c rest)
    with Inr f show ?thesis
      by (auto simp: server_create_def Let_def)
  qed
qed

lemma server_create_rejects_at_floor:
  "authenticateToken tok s = Inr u \<Longrightarrow> concessions u \<le> - 5 \<Longrightarrow>
   \<exists>e. server_create now nid tok cid t s = Inl e"
  using server_create_balance [of now nid tok cid t s]
  by (cases "server_create now nid tok cid t s") auto

lemma mock_create_rejects_at_floor:
  "getUserByToken tok s = Some u \<Longrightarrow> concessions u \<le> - 5 \<Longrightarrow>
   mock_create now nid tok cid d s = Inl CreditLimitExceeded"
  by (auto simp: mock_create_def)

text \<open>
  Claim C1. Starting from a store whose user ids are unique and whose balances are all at
  least \<open>-5\<close>, every sequence of create, cancel, completeClass and undoCompleteClass requests
  leaves every balance at least \<open>-5\<close>, on the server and in the mock. A create by a user whose
  balance is at most \<open>-5\<close> is rejected; the server answers \<open>CreditLimitExceeded\<close> exactly when
  the request reached the balance check (an active member's validated request, inside the
  window, for a class that exists and is no draft) and the balance is at most \<open>-5\<close>, the mock
  whenever the balance is at most \<open>-5\<close>. A successful create lowers the requester's balance
  by exactly 1 and leaves every other balance.
\<close>

theorem credit_floor_invariant:
  assumes "uniqueUserIds s" and "creditFloorOk s"
  shows "creditFloorOk (server_run s rs) \<and> creditFloorOk (mock_run s ms) \<and>
    (authenticateToken tok s = Inr u \<and> concessions u \<le> - 5 \<longrightarrow>
       (\<exists>e. server_create now nid tok cid t s = Inl e)) \<and>
    (getUserByToken mtok s = Some mu \<and> concessions mu \<le> - 5 \<longrightarrow>
       mock_create now nid mtok cid d s = Inl CreditLimitExceeded) \<and>
    (server_create now nid tok cid t s = Inl CreditLimitExceeded \<longleftrightarrow>
       (\<exists>u c rest. authenticateToken tok s = Inr u \<and> u_role u = Member \<and> 1 \<le> cid \<and>
          isWithinBookingWindow now t \<and>
          filter (\<lambda>c. c_id c = cid) (classes s) = c # rest \<and> c_status c \<noteq> Draft \<and>
          concessions u \<le> - 5)) \<and>
    (\<forall>s'. server_create now nid tok cid t s = Inr s' \<longrightarrow>
       (\<exists>u. authenticateToken tok s = Inr u \<and> balanceOf (u_id u) s = Some (concessions u) \<and>
            - 5 < concessions u \<and> balanceOf (u_id u) s' = Some (concessions u - 1) \<and>
            (\<forall>uid. uid \<noteq> u_id u \<longrightarrow> balanceOf uid s' = balanceOf uid s))) \<and>
    (\<forall>s'. mock_create now nid mtok cid d s = Inr s' \<longrightarrow>
       (\<exists>u. getUserByToken mtok s = Some u \<and> balanceOf (u_id u) s = Some (concessions u) \<and>
            - 5 < concessions u \<and> balanceOf (u_id u) s' = Some (concessions u - 1) \<and>
            (\<forall>uid. uid \<noteq> u_id u \<longrightarrow> balanceOf uid s' = balanceOf uid s)))"
proof -
  have 1: "creditFloorOk (server_run s rs)" using assms by (rule server_run_floor)
  have 2: "creditFloorOk (mock_run s ms)" using assms(2) by (rule mock_run_floor)
  have 3: "authenticateToken tok s = Inr u \<and> concessions u \<le> - 5 \<longrightarrow>
       (\<exists>e. server_create now nid tok cid t s = Inl e)"
    using server_create_rejects_at_floor by blast
  have 4: "getUserByToken mtok s = Some mu \<and> concessions mu \<le> - 5 \<longrightarrow>
       mock_create now nid mtok cid d s = Inl CreditLimitExceeded"
    using mock_create_rejects_at_floor by blast
  have 5: "\<forall>s'. server_create now nid tok cid t s = Inr s' \<longrightarrow>
       (\<exists>u. authenticateToken tok s = Inr u \<and> balanceOf (u_id u) s = Some (concessions u) \<and>
            - 5 < concessions u \<and> balanceOf (u_id u) s' = Some (concessions u - 1) \<and>
            (\<forall>uid. uid \<noteq> u_id u \<longrightarrow> balanceOf uid s' = balanceOf uid s))"
    using server_create_balance by blast
  have 6: "\<forall>s'. mock_create now nid mtok cid d s = Inr s' \<longrightarrow>
       (\<exists>u. getUserByToken mtok s = Some u \<and> balanceOf (u_id u) s = Some (concessions u) \<and>
            - 5 < concessions u \<and> balanceOf (u_id u) s' = Some (concessions u - 1) \<and>
            (\<forall>uid. uid \<noteq> u_id u \<longrightarrow> balanceOf uid s' = balanceOf uid s))"
    using mock_create_balance [OF assms(1)] by blast
  show ?thesis
    using 1 2 3 4 5 6 server_create_CreditLimitExceeded [of now nid tok cid t s] by blast
qed

theorem credit_floor_invariant_witness:
  "uniqueUserIds (demoStore (- 4)) \<and> creditFloorOk (demoStore (- 4)) \<and>
   creditFloorOk (server_run (demoStore (- 4))
      [Create 1700000000000 100 (Some 2) 1 (dateMs 19676),
       Create 1700000000000 101 (Some 2) 1 (dateMs 19677)]) \<and>
   creditFloorOk (mock_run (demoStore (- 4))
      [MockCreate 1700000000000 100 MockUserToken 1 19676,
       MockCreate 1700000000000 101 MockUserToken 1 19677]) \<and>
   balanceOf 2 (server_run (demoStore (- 4))
      [Create 1700000000000 100 (Some 2) 1 (dateMs 19676)]) = Some (- 5) \<and>
   map status (bookings (server_run (demoStore (- 4))
      [Create 1700000000000 100 (Some 2) 1 (dateMs 19676)])) = [Confirmed] \<and>
   server_create 1700000000000 101 (Some 2) 1 (dateMs 19677)
     (server_run (demoStore (- 4)) [Create 1700000000000 100 (Some 2) 1 (dateMs 19676)])
       = Inl CreditLimitExceeded \<and>
   balanceOf 2 (mock_run (demoStore (- 4))
      [MockCreate 1700000000000 100 MockUserToken 1 19676]) = Some (- 5) \<and>
   map status (bookings (mock_run (demoStore (- 4))
      [MockCreate 1700000000000 100 MockUserToken 1 19676])) = [Confirmed] \<and>
   mock_create 1700000000000 101 MockUserToken 1 19677
     (mock_run (demoStore (- 4)) [MockCreate 1700000000000 100 MockUserToken 1 19676])
       = Inl CreditLimitExceeded"
proof -
  have h1: "uniqueUserIds (demoStore (- 4))" by code_simp
  have h2: "creditFloorOk (demoStore (- 4))" by code_simp
  have c: "balanceOf 2 (server_run (demoStore (- 4))
      [Create 1700000000000 100 (Some 2) 1 (dateMs 19676)]) = Some (- 5) \<and>
   map status (bookings (server_run (demoStore (- 4))
      [Create 1700000000000 100 (Some 2) 1 (dateMs 19676)])) = [Confirmed] \<and>
   server_create 1700000000000 101 (Some 2) 1 (dateMs 19677)
     (server_run (demoStore (- 4)) [Create 1700000000000 100 (Some 2) 1 (dateMs 19676)])
       = Inl CreditLimitExceeded \<and>
   balanceOf 2 (mock_run (demoStore (- 4))
      [MockCreate 1700000000000 100 MockUserToken 1 19676]) = Some (- 5) \<and>
   map status (bookings (mock_run (demoStore (- 4))
      [MockCreate 1700000000000 100 MockUserToken 1 19676])) = [Confirmed] \<and>
   mock_create 1700000000000 101 MockUserToken 1 19677
     (mock_run (demoStore (- 4)) [MockCreate 1700000000000 100 MockUserToken 1 19676])
       = Inl CreditLimitExceeded"
    by code_simp
  show ?thesis
    using credit_floor_invariant [OF h1 h2,
        of "[Create 1700000000000 100 (Some 2) 1 (dateMs 19676),
             Create 1700000000000 101 (Some 2) 1 (dateMs 19677)]"
           "[MockCreate 1700000000000 100 MockUserToken 1 19676,
             MockCreate 1700000000000 101 MockUserToken 1 19677]"]
      h1 h2 c
    by simp
qed

section \<open>The capacity of a class\<close>

lemma count_map_le:
  "(\<And>b. P (g b) \<Longrightarrow> P b) \<Longrightarrow> length (filter P (map g xs)) \<le> length (filter P xs)"
  by (induction xs) auto

lemma count_map_eq:
  "(\<And>b. P (g b) = P b) \<Longrightarrow> length (filter P (map g xs)) = length (filter P xs)"
  by (induction xs) auto

lemma server_create_capacity:
  assumes "find (\<lambda>c. c_id c = cid) (classes s) = Some c"
    and "int (confirmedCount cid d s) \<le> max_capacity c"
    and "server_create now nid tok cid' t s = Inr s'"
  shows "int (confirmedCount cid d s') \<le> max_capacity c"
proof -
  from server_create_InrD [OF assms(3)] obtain u :: user and c' :: gym_class and rest where
    f: "filter (\<lambda>c. c_id c = cid') (classes s) = c' # rest"
    and lt: "int (confirmedCount cid' (storedDate t) s) < max_capacity c'"
    and b: "bookings s' = bookings s @ [newBooking now nid (u_id u) cid' (storedDate t)]"
    by blast
  show ?thesis
  proof (cases "cid' = cid \<and> storedDate t = d")
    case True
    with f assms(1) have "c' = c" by (simp add: find_filter_conv)
    with True lt show ?thesis by (auto simp: confirmedCount_def b newBooking_def)
  next
    case False
    then have "confirmedCount cid d s' = confirmedCount cid d s"
      by (auto simp: confirmedCount_def b newBooking_def)
    with assms(2) show ?thesis by simp
  qed
qed

lemma server_cancel_count:
  assumes "server_cancel now tok bid s = Inr s'"
  shows "confirmedCount cid d s' \<le> confirmedCount cid d s"
proof -
  from server_cancel_ok [OF assms] have
    b: "bookings s' = map (\<lambda>x. if b_id x = bid then cancelRow now False x else x) (bookings s)"
    by blast
  show ?thesis
    unfolding confirmedCount_def b
    by (rule count_map_le) (auto simp: cancelRow_def split: if_splits)
qed

lemma server_complete_count:
  assumes "server_completeClass tok cid' t s = Inr (n, s')"
  shows "confirmedCount cid d s' \<le> confirmedCount cid d s"
proof -
  from server_complete_state [OF assms] have b: "bookings s' =
      map (\<lambda>b. if class_id b = cid' \<and> booking_date b = storedDate t \<and> status b = Confirmed
               then b\<lparr>status := Completed\<rparr> else b) (bookings s)"
    by simp
  show ?thesis
    unfolding confirmedCount_def b
    by (rule count_map_le) (auto split: if_splits)
qed

lemma server_undo_other_pair:
  assumes "server_undoCompleteClass tok cid' t s = Inr (n, s')"
    and "\<not> (cid' = cid \<and> storedDate t = d)"
  shows "confirmedCount cid d s' = confirmedCount cid d s"
proof -
  from server_undo_state [OF assms(1)] have b: "bookings s' =
      map (\<lambda>b. if class_id b = cid' \<and> booking_date b = storedDate t \<and> status b = Completed
               then b\<lparr>status := Confirmed\<rparr> else b) (bookings s)"
    by simp
  show ?thesis
    unfolding confirmedCount_def b
    using assms(2) by (intro count_map_eq) auto
qed

lemma server_step_classes: "classes (server_step s r) = classes s"
proof (cases r)
  case (Create now nid tok cid t)
  then show ?thesis by (auto split: sum.splits dest: server_create_InrD)
next
  case (Cancel now tok bid)
  then show ?thesis by (auto split: sum.splits dest: server_cancel_ok)
next
  case (CompleteClass tok cid t)
  then show ?thesis by (auto split: sum.splits dest: server_complete_state)
next
  case (UndoCompleteClass tok cid t)
  then show ?thesis by (auto split: sum.splits dest: server_undo_state)
qed

lemma server_step_capacity:
  assumes "find (\<lambda>c. c_id c = cid) (classes s) = Some c"
    and "int (confirmedCount cid d s) \<le> max_capacity c"
    and "\<not> isUndoOf cid d r"
  shows "int (confirmedCount cid d (server_step s r)) \<le> max_capacity c"
proof (cases r)
  case (Create now nid tok cid' t)
  with assms show ?thesis
    by (auto split: sum.splits dest: server_create_capacity)
next
  case (Cancel now tok bid)
  show ?thesis
  proof (cases "server_cancel now tok bid s")
    case (Inl e)
    with Cancel assms show ?thesis by simp
  next
    case (Inr s')
    from server_cancel_count [OF Inr, of cid d] Cancel Inr assms show ?thesis by simp
  qed
next
  case (CompleteClass tok cid' t)
  show ?thesis
  proof (cases "server_completeClass tok cid' t s")
    case (Inl e)
    with CompleteClass assms show ?thesis by simp
  next
    case (Inr res)
    obtain n s' where res: "res = (n, s')" by (cases res)
    from server_complete_count [of tok cid' t s n s' cid d] CompleteClass Inr res assms
    show ?thesis by simp
  qed
next
  case (UndoCompleteClass tok cid' t)
  show ?thesis
  proof (cases "server_undoCompleteClass tok cid' t s")
    case (Inl e)
    with UndoCompleteClass assms show ?thesis by simp
  next
    case (Inr res)
    obtain n s' where res: "res = (n, s')" by (cases res)
    from assms(3) UndoCompleteClass have "\<not> (cid' = cid \<and> storedDate t = d)" by simp
    from server_undo_other_pair [OF _ this, of tok s n s'] UndoCompleteClass Inr res assms
    show ?thesis by simp
  qed
qed

lemma server_run_capacity:
  assumes "find (\<lambda>c. c_id c = cid) (classes s) = Some c"
    and "int (confirmedCount cid d s) \<le> max_capacity c"
    and "\<forall>r \<in> set rs. \<not> isUndoOf cid d r"
  shows "int (confirmedCount cid d (server_run s rs)) \<le> max_capacity c"
  using assms unfolding server_run_def
proof (induction rs arbitrary: s)
  case Nil
  then show ?case by simp
next
  case (Cons r rs)
  have "find (\<lambda>c. c_id c = cid) (classes (server_step s r)) = Some c"
    using Cons.prems(1) by (simp add: server_step_classes)
  moreover have "int (confirmedCount cid d (server_step s r)) \<le> max_capacity c"
    using Cons.prems by (intro server_step_capacity) simp_all
  ultimately show ?case using Cons.IH Cons.prems(3) by simp
qed

lemma server_create_ClassFull:
  "server_create now nid tok cid t s = Inl ClassFull \<longleftrightarrow>
     (\<exists>u c rest. authenticateToken tok s = Inr u \<and> u_role u = Member \<and> 1 \<le> cid \<and>
        isWithinBookingWindow now t \<and>
        filter (\<lambda>c. c_id c = cid) (classes s) = c # rest \<and> c_status c \<noteq> Draft \<and>
        - 5 < concessions u \<and>
        filter (\<lambda>b. user_id b = u_id u \<and> class_id b = cid \<and> booking_date b = storedDate t \<and>
                     status b = Confirmed) (bookings s) = [] \<and>
        max_capacity c \<le> int (confirmedCount cid (storedDate t) s))"
proof (cases "authenticateToken tok s")
  case (Inl e)
  then show ?thesis
    by (auto simp: server_create_def authenticateToken_def split: option.splits list.splits if_splits)
next
  case (Inr u)
  from authenticateToken_Inr [OF Inr] obtain urest where
    f: "filter (\<lambda>x. u_id x = u_id u) (users s) = u # urest" by blast
  show ?thesis
  proof (cases "filter (\<lambda>c. c_id c = cid) (classes s)")
    case Nil
    with Inr show ?thesis by (simp add: server_create_def)
  next
    case (Cons c rest)
    with Inr f show ?thesis
      by (auto simp: server_create_def Let_def)
  qed
qed

lemma server_create_full_rejected:
  assumes "find (\<lambda>c. c_id c = cid) (classes s) = Some c"
    and "max_capacity c \<le> int (confirmedCount cid (storedDate t) s)"
  shows "\<exists>e. server_create now nid tok cid t s = Inl e"
proof (cases "server_create now nid tok cid t s")
  case (Inl e)
  then show ?thesis by blast
next
  case (Inr s')
  from server_create_InrD [OF Inr] assms show ?thesis
    by (auto simp: find_filter_conv)
qed

text \<open>
  The capacity claim fails on the server as soon as the completion of the pair is undone:
  with one seat, a member's booking is made and completed, the freed seat is booked by
  another member, and the undo brings the first booking back to confirmed: two confirmed
  bookings for one seat.
\<close>

theorem capacity_undo_counterexample:
  "find (\<lambda>c. c_id c = 1) (classes (demoStore 5)) = Some demoClass \<and>
   int (confirmedCount 1 19676 (demoStore 5)) \<le> max_capacity demoClass \<and>
   max_capacity demoClass = 1 \<and>
   confirmedCount 1 19676 (server_run (demoStore 5)
      [Create 1700000000000 100 (Some 2) 1 (dateMs 19676),
       CompleteClass (Some 1) 1 (dateMs 19676),
       Create 1700000000000 101 (Some 3) 1 (dateMs 19676)]) = 1 \<and>
   confirmedCount 1 19676 (server_run (demoStore 5)
      [Create 1700000000000 100 (Some 2) 1 (dateMs 19676),
       CompleteClass (Some 1) 1 (dateMs 19676),
       Create 1700000000000 101 (Some 3) 1 (dateMs 19676),
       UndoCompleteClass (Some 1) 1 (dateMs 19676)]) = 2"
  by code_simp

text \<open>
  Claim C2, amended. On the server, every sequence of create, cancel and completeClass
  requests, and of undoCompleteClass requests for other (class, date) pairs, keeps the
  number of confirmed bookings of a (class, date) pair at most the class's \<open>max_capacity\<close>; a
  create for a pair whose count has reached the capacity is rejected, and it is answered
  with \<open>ClassFull\<close> exactly when all earlier checks of the route pass (an active member,
  validated, inside the window, class no draft, balance above \<open>-5\<close>, no confirmed booking of
  the member for the pair) and the count is at least the capacity.
\<close>

theorem capacity_without_undo:
  assumes "find (\<lambda>c. c_id c = cid) (classes s) = Some c"
    and "int (confirmedCount cid d s) \<le> max_capacity c"
    and "\<forall>r \<in> set rs. \<not> isUndoOf cid d r"
  shows "int (confirmedCount cid d (server_run s rs)) \<le> max_capacity c \<and>
    (storedDate t = d \<and> max_capacity c \<le> int (confirmedCount cid d s) \<longrightarrow>
       (\<exists>e. server_create now nid tok cid t s = Inl e)) \<and>
    (storedDate t = d \<longrightarrow>
       (server_create now nid tok cid t s = Inl ClassFull \<longleftrightarrow>
          (\<exists>u. authenticateToken tok s = Inr u \<and> u_role u = Member \<and> - 5 < concessions u \<and>
               filter (\<lambda>b. user_id b = u_id u \<and> class_id b = cid \<and> booking_date b = d \<and>
                            status b = Confirmed) (bookings s) = []) \<and>
          1 \<le> cid \<and> isWithinBookingWindow now t \<and> c_status c \<noteq> Draft \<and>
          max_capacity c \<le> int (confirmedCount cid d s)))"
proof -
  have 1: "int (confirmedCount cid d (server_run s rs)) \<le> max_capacity c"
    using assms by (rule server_run_capacity)
  have 2: "storedDate t = d \<and> max_capacity c \<le> int (confirmedCount cid d s) \<longrightarrow>
       (\<exists>e. server_create now nid tok cid t s = Inl e)"
    using server_create_full_rejected [OF assms(1), of t] by blast
  from assms(1) obtain rest where f: "filter (\<lambda>c. c_id c = cid) (classes s) = c # rest"
    by (auto simp: find_filter_conv split: list.splits)
  have 3: "storedDate t = d \<longrightarrow>
       (server_create now nid tok cid t s = Inl ClassFull \<longleftrightarrow>
          (\<exists>u. authenticateToken tok s = Inr u \<and> u_role u = Member \<and> - 5 < concessions u \<and>
               filter (\<lambda>b. user_id b = u_id u \<and> class_id b = cid \<and> booking_date b = d \<and>
                            status b = Confirmed) (bookings s) = []) \<and>
          1 \<le> cid \<and> isWithinBookingWindow now t \<and> c_status c \<noteq> Draft \<and>
          max_capacity c \<le> int (confirmedCount cid d s))"
    unfolding server_create_ClassFull f by auto
  from 1 2 3 show ?thesis by blast
qed

theorem capacity_without_undo_witness:
  "find (\<lambda>c. c_id c = 1) (classes (demoStore 5)) = Some demoClass \<and>
   int (confirmedCount 1 19676 (demoStore 5)) \<le> max_capacity demoClass \<and>
   list_all (\<lambda>r. \<not> isUndoOf 1 19676 r)
     [Create 1700000000000 100 (Some 2) 1 (dateMs 19676),
      Create 1700000000000 101 (Some 3) 1 (dateMs 19676),
      CompleteClass (Some 1) 1 (dateMs 19676),
      Create 1700000000000 102 (Some 3) 1 (dateMs 19676),
      UndoCompleteClass (Some 1) 1 (dateMs 19677)] \<and>
   int (confirmedCount 1 19676 (server_run (demoStore 5)
     [Create 1700000000000 100 (Some 2) 1 (dateMs 19676),
      Create 1700000000000 101 (Some 3) 1 (dateMs 19676),
      CompleteClass (Some 1) 1 (dateMs 19676),
      Create 1700000000000 102 (Some 3) 1 (dateMs 19676),
      UndoCompleteClass (Some 1) 1 (dateMs 19677)])) \<le> max_capacity demoClass \<and>
   confirmedCount 1 19676 (server_run (demoStore 5)
     [Create 1700000000000 100 (Some 2) 1 (dateMs 19676),
      Create 1700000000000 101 (Some 3) 1 (dateMs 19676),
      CompleteClass (Some 1) 1 (dateMs 19676),
      Create 1700000000000 102 (Some 3) 1 (dateMs 19676),
      UndoCompleteClass (Some 1) 1 (dateMs 19677)]) = 1 \<and>
   storedDate (dateMs 19676) = 19676 \<and>
   server_create 1700000000000 101 (Some 3) 1 (dateMs 19676)
     (server_run (demoStore 5) [Create 1700000000000 100 (Some 2) 1 (dateMs 19676)])
       = Inl ClassFull"
proof -
  have h1: "find (\<lambda>c. c_id c = 1) (classes (demoStore 5)) = Some demoClass" by code_simp
  have h2: "int (confirmedCount 1 19676 (demoStore 5)) \<le> max_capacity demoClass" by code_simp
  have h3: "\<forall>r \<in> set [Create 1700000000000 100 (Some 2) 1 (dateMs 19676),
      Create 1700000000000 101 (Some 3) 1 (dateMs 19676),
      CompleteClass (Some 1) 1 (dateMs 19676),
      Create 1700000000000 102 (Some 3) 1 (dateMs 19676),
      UndoCompleteClass (Some 1) 1 (dateMs 19677)]. \<not> isUndoOf 1 19676 r" by simp
  have c: "server_create 1700000000000 101 (Some 3) 1 (dateMs 19676)
     (server_run (demoStore 5) [Create 1700000000000 100 (Some 2) 1 (dateMs 19676)])
       = Inl ClassFull \<and>
     confirmedCount 1 19676 (server_run (demoStore 5)
     [Create 1700000000000 100 (Some 2) 1 (dateMs 19676),
      Create 1700000000000 101 (Some 3) 1 (dateMs 19676),
      CompleteClass (Some 1) 1 (dateMs 19676),
      Create 1700000000000 102 (Some 3) 1 (dateMs 19676),
      UndoCompleteClass (Some 1) 1 (dateMs 19677)]) = 1"
    by code_simp
  show ?thesis
    using capacity_without_undo [OF h1 h2 h3] h1 h2 c by simp
qed

section \<open>The guards of cancel\<close>

lemma bookingWithClass_empty:
  "\<forall>b \<in> set (bookings s). b_id b \<noteq> bid \<Longrightarrow> bookingWithClass bid s = []"
  by (simp add: bookingWithClass_def filter_empty_conv)

lemma bookingWithClass_after_cancel:
  assumes "bookings s' = map (\<lambda>x. if b_id x = bid then cancelRow now l x else x) (bookings s)"
    and "classes s' = classes s"
  shows "bookingWithClass bid s' = map (\<lambda>(b, c). (cancelRow now l b, c)) (bookingWithClass bid s)"
proof -
  have "filter (\<lambda>b. b_id b = bid) (map (\<lambda>x. if b_id x = bid then cancelRow now l x else x) xs)
          = map (cancelRow now l) (filter (\<lambda>b. b_id b = bid) xs)" for xs
    by (induction xs) (auto simp: cancelRow_def)
  then show ?thesis
    unfolding bookingWithClass_def assms
    by (simp add: map_concat comp_def cancelRow_def)
qed


lemma server_cancel_NotFound:
  "authenticateToken tok s = Inr u \<Longrightarrow> \<forall>b \<in> set (bookings s). b_id b \<noteq> bid \<Longrightarrow>
   server_cancel now tok bid s = Inl NotFound"
  by (simp add: server_cancel_def bookingWithClass_empty)

lemma server_cancel_Forbidden:
  "authenticateToken tok s = Inr u \<Longrightarrow> bookingWithClass bid s = (b, c) # rest \<Longrightarrow>
   u_role u \<noteq> Admin \<Longrightarrow> user_id b \<noteq> u_id u \<Longrightarrow>
   server_cancel now tok bid s = Inl Forbidden"
  by (simp add: server_cancel_def)

lemma server_cancel_InvalidTransition:
  "authenticateToken tok s = Inr u \<Longrightarrow> bookingWithClass bid s = (b, c) # rest \<Longrightarrow>
   u_role u = Admin \<or> user_id b = u_id u \<Longrightarrow>
   status b \<noteq> Confirmed \<Longrightarrow> server_cancel now tok bid s = Inl InvalidTransition"
  by (auto simp: server_cancel_def)

lemma filter_update_concessions:
  "filter (\<lambda>x. u_id x = k)
     (map (\<lambda>x. if u_id x = j then x\<lparr>concessions := f (concessions x)\<rparr> else x) xs)
   = map (\<lambda>x. if u_id x = j then x\<lparr>concessions := f (concessions x)\<rparr> else x)
       (filter (\<lambda>x. u_id x = k) xs)"
  by (induction xs) auto

lemma authenticateToken_after_credit:
  assumes "authenticateToken tok s = Inr u"
    and "users s' = map (\<lambda>x. if u_id x = j then x\<lparr>concessions := f (concessions x)\<rparr> else x)
                      (users s)"
  shows "\<exists>u'. authenticateToken tok s' = Inr u' \<and> u_id u' = u_id u \<and> u_role u' = u_role u"
proof -
  from authenticateToken_Inr [OF assms(1)] obtain rest where
    t: "tok = Some (u_id u)" and f: "filter (\<lambda>x. u_id x = u_id u) (users s) = u # rest"
    and a: "is_active u" by blast
  let ?g = "\<lambda>x. if u_id x = j then x\<lparr>concessions := f (concessions x)\<rparr> else x"
  have "filter (\<lambda>x. u_id x = u_id u) (users s') = ?g u # map ?g rest"
    unfolding assms(2) filter_update_concessions f by simp
  with t a show ?thesis
    by (intro exI [of _ "?g u"]) (simp add: authenticateToken_def)
qed

lemma server_cancel_twice:
  assumes "server_cancel now tok bid s = Inr s'"
  shows "server_cancel now' tok bid s' = Inl InvalidTransition"
proof -
  from server_cancel_ok [OF assms] obtain u :: user and b :: booking and c :: gym_class and rest
    where au: "authenticateToken tok s = Inr u"
    and r: "bookingWithClass bid s = (b, c) # rest"
    and a: "u_role u = Admin \<or> user_id b = u_id u"
    and bs: "bookings s' = map (\<lambda>x. if b_id x = bid then cancelRow now False x else x) (bookings s)"
    and cs: "classes s' = classes s"
    and us: "users s' = (if used_concession b
                       then map (\<lambda>x. if u_id x = user_id b
                                      then x\<lparr>concessions := concessions x + 1\<rparr> else x) (users s)
                       else users s)"
    by blast
  have "\<exists>u'. authenticateToken tok s' = Inr u' \<and> u_id u' = u_id u \<and> u_role u' = u_role u"
  proof (cases "used_concession b")
    case True
    with us authenticateToken_after_credit [OF au, of s' "user_id b" "\<lambda>c. c + 1"]
    show ?thesis by simp
  next
    case False
    with us have "authenticateToken tok s' = authenticateToken tok s"
      by (cases tok) (simp_all add: authenticateToken_def)
    with au show ?thesis by simp
  qed
  then obtain u' where au': "authenticateToken tok s' = Inr u'"
    and same: "u_id u' = u_id u" "u_role u' = u_role u" by blast
  have "bookingWithClass bid s' = (cancelRow now False b, c) # map (\<lambda>(b, c). (cancelRow now False b, c)) rest"
    using bookingWithClass_after_cancel [OF bs cs] r by simp
  moreover have "status (cancelRow now False b) \<noteq> Confirmed"
      "user_id (cancelRow now False b) = user_id b"
    by (simp_all add: cancelRow_def)
  ultimately show ?thesis using a au' same
    by (intro server_cancel_InvalidTransition [OF au']) auto
qed

text \<open>
  The server's cancel, for an authenticated requester: no booking with the id gives
  \<open>NotFound\<close>, a requester who is neither admin nor owner gets \<open>Forbidden\<close>, a booking that
  is not confirmed gives \<open>InvalidTransition\<close>, and after a successful cancel a second one by
  the same requester fails with \<open>InvalidTransition\<close> and leaves the store as it is.
\<close>

lemma server_cancel_guards:
  "(authenticateToken tok s = Inr u \<and> (\<forall>b \<in> set (bookings s). b_id b \<noteq> bid)
      \<longrightarrow> server_cancel now tok bid s = Inl NotFound) \<and>
   (authenticateToken tok s = Inr u \<and> bookingWithClass bid s = (b, c) # rest \<and>
    u_role u \<noteq> Admin \<and> user_id b \<noteq> u_id u
      \<longrightarrow> server_cancel now tok bid s = Inl Forbidden) \<and>
   (authenticateToken tok s = Inr u \<and> bookingWithClass bid s = (b, c) # rest \<and>
    (u_role u = Admin \<or> user_id b = u_id u) \<and> status b \<noteq> Confirmed
      \<longrightarrow> server_cancel now tok bid s = Inl InvalidTransition) \<and>
   (server_cancel now tok bid s = Inr s' \<longrightarrow>
      server_cancel now' tok bid s' = Inl InvalidTransition \<and>
      server_step s' (Cancel now' tok bid) = s')"
  using server_cancel_NotFound [of tok s u bid now]
    server_cancel_Forbidden [of tok s u bid b c rest now]
    server_cancel_InvalidTransition [of tok s u bid b c rest now]
    server_cancel_twice [of now tok bid s s' now']
  by auto

text \<open>
  Claim C5. The mock's cancel has no status check. A member books (balance 5 to 4), cancels
  early (refund, balance 5, status cancelled) and cancels the same booking again: the mock
  accepts the second cancel and refunds once more (balance 6), where the server answers
  \<open>InvalidTransition\<close> and leaves the balance at 5.
\<close>

theorem mock_cancel_twice_refunds_twice:
  "balanceOf 2 (mock_run (demoStore 5)
      [MockCreate 1700000000000 100 MockUserToken 1 19680]) = Some 4 \<and>
   balanceOf 2 (mock_run (demoStore 5)
      [MockCreate 1700000000000 100 MockUserToken 1 19680,
       MockCancel 1700000000000 MockUserToken 100]) = Some 5 \<and>
   map status (bookings (mock_run (demoStore 5)
      [MockCreate 1700000000000 100 MockUserToken 1 19680,
       MockCancel 1700000000000 MockUserToken 100]))
     = [Cancelled] \<and>
   mock_cancel 1700000000000 MockUserToken 100 (mock_run (demoStore 5)
      [MockCreate 1700000000000 100 MockUserToken 1 19680,
       MockCancel 1700000000000 MockUserToken 100])
     = Inr (mock_run (demoStore 5)
      [MockCreate 1700000000000 100 MockUserToken 1 19680,
       MockCancel 1700000000000 MockUserToken 100,
       MockCancel 1700000000000 MockUserToken 100]) \<and>
   balanceOf 2 (mock_run (demoStore 5)
      [MockCreate 1700000000000 100 MockUserToken 1 19680,
       MockCancel 1700000000000 MockUserToken 100,
       MockCancel 1700000000000 MockUserToken 100]) = Some 6 \<and>
   server_cancel 1700000000000 (Some 2) 100 (server_run (demoStore 5)
      [Create 1700000000000 100 (Some 2) 1 (dateMs 19680),
       Cancel 1700000000000 (Some 2) 100])
     = Inl InvalidTransition \<and>
   balanceOf 2 (server_run (demoStore 5)
      [Create 1700000000000 100 (Some 2) 1 (dateMs 19680),
       Cancel 1700000000000 (Some 2) 100,
       Cancel 1700000000000 (Some 2) 100]) = Some 5"
  by code_simp

section \<open>The outcome of a cancellation\<close>

lemma server_cancel_outcome:
  assumes "server_cancel now tok bid s = Inr s'"
  shows "\<exists>b c rest b' rest'.
           bookingWithClass bid s = (b, c) # rest \<and> status b = Confirmed \<and>
           bookingWithClass bid s' = (b', c) # rest' \<and>
           status b' = (if isLateCancellation now (pgDate (booking_date b)) (pgTime (c_time c))
                        then LateCancelled else Cancelled) \<and>
           is_late_cancellation b'
             = isLateCancellation now (pgDate (booking_date b)) (pgTime (c_time c)) \<and>
           used_concession b' = used_concession b \<and>
           b_id b' = b_id b \<and> user_id b' = user_id b \<and>
           balanceOf (user_id b) s' =
             (if \<not> isLateCancellation now (pgDate (booking_date b)) (pgTime (c_time c)) \<and>
                 used_concession b
              then map_option (\<lambda>x. x + 1) (balanceOf (user_id b) s)
              else balanceOf (user_id b) s)"
proof -
  from server_cancel_ok [OF assms] obtain u :: user and b :: booking and c :: gym_class and rest
    where r: "bookingWithClass bid s = (b, c) # rest" and st: "status b = Confirmed"
    and bs: "bookings s' = map (\<lambda>x. if b_id x = bid then cancelRow now False x else x) (bookings s)"
    and cs: "classes s' = classes s"
    and us: "users s' = (if used_concession b
                       then map (\<lambda>x. if u_id x = user_id b
                                      then x\<lparr>concessions := concessions x + 1\<rparr> else x) (users s)
                       else users s)"
    by blast
  have j: "bookingWithClass bid s'
             = (cancelRow now False b, c) # map (\<lambda>(b, c). (cancelRow now False b, c)) rest"
    using bookingWithClass_after_cancel [OF bs cs] r by simp
  have bal: "balanceOf (user_id b) s' =
             (if used_concession b then map_option (\<lambda>x. x + 1) (balanceOf (user_id b) s)
              else balanceOf (user_id b) s)"
    unfolding balanceOf_def us
    using balance_after_update_all [of "user_id b" "user_id b" "\<lambda>x. x + 1" "users s"]
    by simp
  show ?thesis
    apply (rule exI [of _ b], rule exI [of _ c], rule exI [of _ rest])
    apply (rule exI [of _ "cancelRow now False b"])
    apply (rule exI [of _ "map (\<lambda>(b, c). (cancelRow now False b, c)) rest"])
    using r st j bal by (simp add: cancelRow_def)
qed

lemma mock_cancel_outcome:
  assumes "uniqueUserIds s" "mock_cancel now tok bid s = Inr s'"
  shows "\<exists>u i c. getUserByToken tok s = Some u \<and>
           findIndex (\<lambda>b. b_id b = bid \<and> user_id b = u_id u) (bookings s) = Some i \<and>
           i < length (bookings s) \<and> user_id (bookings s ! i) = u_id u \<and>
           find (\<lambda>c. c_id c = class_id (bookings s ! i)) (classes s) = Some c \<and>
           length (bookings s') = length (bookings s) \<and>
           status (bookings s' ! i) =
             (if isLateCancellation now (JsIsoDate (booking_date (bookings s ! i)))
                   (mockTime (c_time c))
              then LateCancelled else Cancelled) \<and>
           is_late_cancellation (bookings s' ! i) =
             isLateCancellation now (JsIsoDate (booking_date (bookings s ! i)))
               (mockTime (c_time c)) \<and>
           used_concession (bookings s' ! i) = used_concession (bookings s ! i) \<and>
           b_id (bookings s' ! i) = bid \<and> user_id (bookings s' ! i) = u_id u \<and>
           balanceOf (u_id u) s' =
             (if \<not> isLateCancellation now (JsIsoDate (booking_date (bookings s ! i)))
                     (mockTime (c_time c)) \<and>
                 used_concession (bookings s ! i)
              then map_option (\<lambda>x. x + 1) (balanceOf (u_id u) s)
              else balanceOf (u_id u) s)"
proof -
  from mock_cancel_ok [OF assms(2)] obtain user :: user and i and gymClass :: gym_class where
    u: "getUserByToken tok s = Some user"
    and i: "findIndex (\<lambda>b. b_id b = bid \<and> user_id b = u_id user) (bookings s) = Some i"
    and c: "find (\<lambda>c. c_id c = class_id (bookings s ! i)) (classes s) = Some gymClass"
    and s': "s' = (let isLate = mock_isLateCancellation now (bookings s ! i) gymClass;
                     s1 = s\<lparr>bookings := (bookings s)[i := cancelRow now isLate (bookings s ! i)]\<rparr>
                 in if \<not> isLate \<and> used_concession (bookings s ! i)
                    then updateUserConcessions (u_id user) (concessions user + 1) s1 else s1)"
    by blast
  from findIndex_Some [OF i] have il: "i < length (bookings s)"
    and ib: "b_id (bookings s ! i) = bid" "user_id (bookings s ! i) = u_id user" by simp_all
  let ?b = "bookings s ! i"
  let ?l = "isLateCancellation now (JsIsoDate (booking_date ?b)) (mockTime (c_time gymClass))"
  have bs: "bookings s' = (bookings s)[i := cancelRow now ?l ?b]"
    unfolding s' by (simp add: Let_def mock_late_eq updateUserConcessions_def split: option.splits)
  have "find (\<lambda>y. u_id y = u_id user) (users s) = Some user"
    using assms(1) getUserByToken_SomeD [OF u] unfolding uniqueUserIds_def by (rule find_unique)
  then have b0: "balanceOf (u_id user) s = Some (concessions user)"
    by (simp add: balanceOf_def)
  have bal: "balanceOf (u_id user) s' =
             (if \<not> ?l \<and> used_concession ?b then map_option (\<lambda>x. x + 1) (balanceOf (u_id user) s)
              else balanceOf (u_id user) s)"
    unfolding s' using b0
    by (simp add: Let_def mock_late_eq balanceOf_updateUserConcessions)
  show ?thesis
    apply (rule exI [of _ user], rule exI [of _ i], rule exI [of _ gymClass])
    using u i il ib c bs bal by (simp add: cancelRow_def)
qed

lemma map_update_same:
  "i < length xs \<Longrightarrow> f y = f (xs ! i) \<Longrightarrow> map f (xs[i := y]) = map f xs"
  by (induction xs arbitrary: i) (auto split: nat.splits)

lemma mock_cancel_bookings:
  assumes "mock_cancel now tok bid s = Inr s'"
  shows "\<exists>i l. i < length (bookings s) \<and>
           bookings s' = (bookings s)[i := cancelRow now l (bookings s ! i)]"
proof -
  from mock_cancel_ok [OF assms] obtain user :: user and i and gymClass :: gym_class where
    i: "findIndex (\<lambda>b. b_id b = bid \<and> user_id b = u_id user) (bookings s) = Some i"
    and s': "s' = (let isLate = mock_isLateCancellation now (bookings s ! i) gymClass;
                     s1 = s\<lparr>bookings := (bookings s)[i := cancelRow now isLate (bookings s ! i)]\<rparr>
                 in if \<not> isLate \<and> used_concession (bookings s ! i)
                    then updateUserConcessions (u_id user) (concessions user + 1) s1 else s1)"
    by blast
  have "bookings s' = (bookings s)[i := cancelRow now (mock_isLateCancellation now (bookings s ! i) gymClass) (bookings s ! i)]"
    unfolding s' by (simp add: Let_def updateUserConcessions_def split: option.splits)
  with findIndex_Some [OF i] show ?thesis by blast
qed

lemma map_used_status:
  "map used_concession (map (\<lambda>b. if P b then b\<lparr>status := st\<rparr> else b) xs)
     = map used_concession xs"
  by (induction xs) auto

lemma server_step_flags: "\<exists>ext. usedFlags (server_step s r) = usedFlags s @ ext"
proof (cases r)
  case (Create now nid tok cid t)
  then show ?thesis
    by (auto simp: usedFlags_def split: sum.splits dest!: server_create_InrD)
next
  case (Cancel now tok bid)
  show ?thesis
  proof (cases "server_cancel now tok bid s")
    case (Inl e)
    with Cancel show ?thesis by simp
  next
    case (Inr s')
    from server_cancel_ok [OF Inr] have
      "bookings s' = map (\<lambda>x. if b_id x = bid then cancelRow now False x else x) (bookings s)"
      by blast
    then have "usedFlags s' = usedFlags s"
      by (simp add: usedFlags_def comp_def cancelRow_def if_distrib cong: if_cong)
    with Cancel Inr show ?thesis by simp
  qed
next
  case (CompleteClass tok cid t)
  show ?thesis
  proof (cases "server_completeClass tok cid t s")
    case (Inl e)
    with CompleteClass show ?thesis by simp
  next
    case (Inr res)
    obtain n s' where res: "res = (n, s')" by (cases res)
    from server_complete_state [of tok cid t s n s'] Inr res
    have "usedFlags s' = usedFlags s" by (simp add: usedFlags_def map_used_status)
    with CompleteClass Inr res show ?thesis by simp
  qed
next
  case (UndoCompleteClass tok cid t)
  show ?thesis
  proof (cases "server_undoCompleteClass tok cid t s")
    case (Inl e)
    with UndoCompleteClass show ?thesis by simp
  next
    case (Inr res)
    obtain n s' where res: "res = (n, s')" by (cases res)
    from server_undo_state [of tok cid t s n s'] Inr res
    have "usedFlags s' = usedFlags s" by (simp add: usedFlags_def map_used_status)
    with UndoCompleteClass Inr res show ?thesis by simp
  qed
qed

lemma usedFlags_users [simp]: "usedFlags (updateUserConcessions k n s) = usedFlags s"
  by (simp add: usedFlags_def updateUserConcessions_def split: option.splits)

lemma mock_step_flags: "\<exists>ext. usedFlags (mock_step s r) = usedFlags s @ ext"
proof (cases r)
  case (MockCreate now nid tok cid d)
  show ?thesis
  proof (cases "mock_create now nid tok cid d s")
    case (Inl e)
    with MockCreate show ?thesis by simp
  next
    case (Inr s')
    from mock_create_ok [OF Inr] obtain user :: user where
      "s' = updateUserConcessions (u_id user) (concessions user - 1)
                  (s\<lparr>bookings := bookings s @ [newBooking now nid (u_id user) cid d]\<rparr>)"
      by blast
    then have "usedFlags s' = usedFlags s @ [True]"
      by (simp add: usedFlags_def [of "s\<lparr>bookings := _\<rparr>"] usedFlags_def [of s] newBooking_def)
    with MockCreate Inr show ?thesis by simp
  qed
next
  case (MockCancel now tok bid)
  show ?thesis
  proof (cases "mock_cancel now tok bid s")
    case (Inl e)
    with MockCancel show ?thesis by simp
  next
    case (Inr s')
    from mock_cancel_bookings [OF Inr] obtain i l where
      "i < length (bookings s)"
      "bookings s' = (bookings s)[i := cancelRow now l (bookings s ! i)]"
      by blast
    then have "usedFlags s' = usedFlags s"
      unfolding usedFlags_def by (simp add: map_update_same cancelRow_def)
    with MockCancel Inr show ?thesis by simp
  qed
next
  case (MockCompleteClass cid d)
  then show ?thesis
    by (simp add: usedFlags_def mock_completeClass_def Let_def comp_def if_distrib
        cong: if_cong)
next
  case (MockUndoCompleteClass cid d)
  then show ?thesis
    by (simp add: usedFlags_def mock_undoCompleteClass_def Let_def comp_def if_distrib
        cong: if_cong)
qed

lemma server_run_flags: "\<exists>ext. usedFlags (server_run s rs) = usedFlags s @ ext"
  unfolding server_run_def
proof (induction rs arbitrary: s)
  case Nil
  then show ?case by simp
next
  case (Cons r rs)
  from server_step_flags [of s r] obtain e1 where "usedFlags (server_step s r) = usedFlags s @ e1"
    by blast
  moreover from Cons.IH [of "server_step s r"] obtain e2 where
    "usedFlags (foldl server_step (server_step s r) rs) = usedFlags (server_step s r) @ e2"
    by blast
  ultimately show ?case by simp
qed

lemma mock_run_flags: "\<exists>ext. usedFlags (mock_run s rs) = usedFlags s @ ext"
  unfolding mock_run_def
proof (induction rs arbitrary: s)
  case Nil
  then show ?case by simp
next
  case (Cons r rs)
  from mock_step_flags [of s r] obtain e1 where "usedFlags (mock_step s r) = usedFlags s @ e1"
    by blast
  moreover from Cons.IH [of "mock_step s r"] obtain e2 where
    "usedFlags (foldl mock_step (mock_step s r) rs) = usedFlags (mock_step s r) @ e2"
    by blast
  ultimately show ?case by simp
qed

text \<open>
  Claim C6. A successful cancel, on the server and in the mock, follows the handler's own
  classification \<open>isLate\<close>. When it is late the booking becomes late-cancelled with the late
  flag set and the owner's balance stays; when it is early the booking becomes cancelled with
  the late flag cleared and the owner's balance grows by exactly 1 if the booking's
  \<open>used_concession\<close> is set, and stays otherwise. The server cancels confirmed bookings only,
  and its classification is computed from the values of the DATE and TIME columns, so it is
  always early there; the late branch is taken in the mock. The flag \<open>used_concession\<close> is
  kept by the cancel, and no sequence of requests changes it for a booking that exists: the
  flags of the store before are a prefix of the flags after. In the mock the balance is read
  through the user's id, so its user ids are taken to be unique.
\<close>

theorem cancellation_outcome:
  "(server_cancel now tok bid s = Inr s' \<longrightarrow>
      (\<exists>b c rest b' rest'.
           bookingWithClass bid s = (b, c) # rest \<and> status b = Confirmed \<and>
           bookingWithClass bid s' = (b', c) # rest' \<and>
           status b' = (if isLateCancellation now (pgDate (booking_date b)) (pgTime (c_time c))
                        then LateCancelled else Cancelled) \<and>
           is_late_cancellation b'
             = isLateCancellation now (pgDate (booking_date b)) (pgTime (c_time c)) \<and>
           used_concession b' = used_concession b \<and>
           b_id b' = b_id b \<and> user_id b' = user_id b \<and>
           balanceOf (user_id b) s' =
             (if \<not> isLateCancellation now (pgDate (booking_date b)) (pgTime (c_time c)) \<and>
                 used_concession b
              then map_option (\<lambda>x. x + 1) (balanceOf (user_id b) s)
              else balanceOf (user_id b) s))) \<and>
   (uniqueUserIds ms \<and> mock_cancel mnow mtok mbid ms = Inr ms' \<longrightarrow>
      (\<exists>u i c. getUserByToken mtok ms = Some u \<and>
           findIndex (\<lambda>b. b_id b = mbid \<and> user_id b = u_id u) (bookings ms) = Some i \<and>
           i < length (bookings ms) \<and> user_id (bookings ms ! i) = u_id u \<and>
           find (\<lambda>c. c_id c = class_id (bookings ms ! i)) (classes ms) = Some c \<and>
           length (bookings ms') = length (bookings ms) \<and>
           status (bookings ms' ! i) =
             (if isLateCancellation mnow (JsIsoDate (booking_date (bookings ms ! i)))
                   (mockTime (c_time c))
              then LateCancelled else Cancelled) \<and>
           is_late_cancellation (bookings ms' ! i) =
             isLateCancellation mnow (JsIsoDate (booking_date (bookings ms ! i)))
               (mockTime (c_time c)) \<and>
           used_concession (bookings ms' ! i) = used_concession (bookings ms ! i) \<and>
           b_id (bookings ms' ! i) = mbid \<and> user_id (bookings ms' ! i) = u_id u \<and>
           balanceOf (u_id u) ms' =
             (if \<not> isLateCancellation mnow (JsIsoDate (booking_date (bookings ms ! i)))
                     (mockTime (c_time c)) \<and>
                 used_concession (bookings ms ! i)
              then map_option (\<lambda>x. x + 1) (balanceOf (u_id u) ms)
              else balanceOf (u_id u) ms))) \<and>
   (\<exists>ext. usedFlags (server_run s rs) = usedFlags s @ ext) \<and>
   (\<exists>ext. usedFlags (mock_run ms mrs) = usedFlags ms @ ext)"
  using server_cancel_outcome [of now tok bid s s']
    mock_cancel_outcome [of ms mnow mtok mbid ms']
    server_run_flags [of s rs] mock_run_flags [of ms mrs]
  by blast

theorem cancellation_outcome_witness:
  "server_cancel 1700373600000 (Some 2) 100
      (server_run (demoStore 5) [Create 1700000000000 100 (Some 2) 1 (dateMs 19680)])
     = Inr (server_run (demoStore 5)
         [Create 1700000000000 100 (Some 2) 1 (dateMs 19680),
          Cancel 1700373600000 (Some 2) 100]) \<and>
   uniqueUserIds (mock_run (demoStore 5) [MockCreate 1700000000000 100 MockUserToken 1 19680]) \<and>
   mock_cancel 1700373600000 MockUserToken 100
      (mock_run (demoStore 5) [MockCreate 1700000000000 100 MockUserToken 1 19680])
     = Inr (mock_run (demoStore 5)
         [MockCreate 1700000000000 100 MockUserToken 1 19680,
          MockCancel 1700373600000 MockUserToken 100]) \<and>
   balanceOf 2 (server_run (demoStore 5) [Create 1700000000000 100 (Some 2) 1 (dateMs 19680)])
     = Some 4 \<and>
   map status (bookings (server_run (demoStore 5)
         [Create 1700000000000 100 (Some 2) 1 (dateMs 19680),
          Cancel 1700373600000 (Some 2) 100]))
     = [Cancelled] \<and>
   map is_late_cancellation (bookings (server_run (demoStore 5)
         [Create 1700000000000 100 (Some 2) 1 (dateMs 19680),
          Cancel 1700373600000 (Some 2) 100]))
     = [False] \<and>
   balanceOf 2 (server_run (demoStore 5)
         [Create 1700000000000 100 (Some 2) 1 (dateMs 19680),
          Cancel 1700373600000 (Some 2) 100])
     = Some 5 \<and>
   balanceOf 2 (mock_run (demoStore 5) [MockCreate 1700000000000 100 MockUserToken 1 19680])
     = Some 4 \<and>
   map status (bookings (mock_run (demoStore 5)
         [MockCreate 1700000000000 100 MockUserToken 1 19680,
          MockCancel 1700373600000 MockUserToken 100]))
     = [LateCancelled] \<and>
   map is_late_cancellation (bookings (mock_run (demoStore 5)
         [MockCreate 1700000000000 100 MockUserToken 1 19680,
          MockCancel 1700373600000 MockUserToken 100]))
     = [True] \<and>
   balanceOf 2 (mock_run (demoStore 5)
         [MockCreate 1700000000000 100 MockUserToken 1 19680,
          MockCancel 1700373600000 MockUserToken 100])
     = Some 4 \<and>
   map status (bookings (mock_run (demoStore 5)
         [MockCreate 1700000000000 100 MockUserToken 1 19680,
          MockCancel 1700000000000 MockUserToken 100]))
     = [Cancelled] \<and>
   balanceOf 2 (mock_run (demoStore 5)
         [MockCreate 1700000000000 100 MockUserToken 1 19680,
          MockCancel 1700000000000 MockUserToken 100])
     = Some 5"
proof -
  have h1: "server_cancel 1700373600000 (Some 2) 100
      (server_run (demoStore 5) [Create 1700000000000 100 (Some 2) 1 (dateMs 19680)])
     = Inr (server_run (demoStore 5)
         [Create 1700000000000 100 (Some 2) 1 (dateMs 19680),
          Cancel 1700373600000 (Some 2) 100])"
    by code_simp
  have h2: "uniqueUserIds
      (mock_run (demoStore 5) [MockCreate 1700000000000 100 MockUserToken 1 19680])"
    by code_simp
  have h3: "mock_cancel 1700373600000 MockUserToken 100
      (mock_run (demoStore 5) [MockCreate 1700000000000 100 MockUserToken 1 19680])
     = Inr (mock_run (demoStore 5)
         [MockCreate 1700000000000 100 MockUserToken 1 19680,
          MockCancel 1700373600000 MockUserToken 100])"
    by code_simp
  have c: "balanceOf 2 (server_run (demoStore 5) [Create 1700000000000 100 (Some 2) 1 (dateMs 19680)])
     = Some 4 \<and>
   map status (bookings (server_run (demoStore 5)
         [Create 1700000000000 100 (Some 2) 1 (dateMs 19680),
          Cancel 1700373600000 (Some 2) 100]))
     = [Cancelled] \<and>
   map is_late_cancellation (bookings (server_run (demoStore 5)
         [Create 1700000000000 100 (Some 2) 1 (dateMs 19680),
          Cancel 1700373600000 (Some 2) 100]))
     = [False] \<and>
   balanceOf 2 (server_run (demoStore 5)
         [Create 1700000000000 100 (Some 2) 1 (dateMs 19680),
          Cancel 1700373600000 (Some 2) 100])
     = Some 5 \<and>
   balanceOf 2 (mock_run (demoStore 5) [MockCreate 1700000000000 100 MockUserToken 1 19680])
     = Some 4 \<and>
   map status (bookings (mock_run (demoStore 5)
         [MockCreate 1700000000000 100 MockUserToken 1 19680,
          MockCancel 1700373600000 MockUserToken 100]))
     = [LateCancelled] \<and>
   map is_late_cancellation (bookings (mock_run (demoStore 5)
         [MockCreate 1700000000000 100 MockUserToken 1 19680,
          MockCancel 1700373600000 MockUserToken 100]))
     = [True] \<and>
   balanceOf 2 (mock_run (demoStore 5)
         [MockCreate 1700000000000 100 MockUserToken 1 19680,
          MockCancel 1700373600000 MockUserToken 100])
     = Some 4 \<and>
   map status (bookings (mock_run (demoStore 5)
         [MockCreate 1700000000000 100 MockUserToken 1 19680,
          MockCancel 1700000000000 MockUserToken 100]))
     = [Cancelled] \<and>
   balanceOf 2 (mock_run (demoStore 5)
         [MockCreate 1700000000000 100 MockUserToken 1 19680,
          MockCancel 1700000000000 MockUserToken 100])
     = Some 5"
    by code_simp
  show ?thesis
    using cancellation_outcome [of 1700373600000 "Some 2" 100
        "server_run (demoStore 5) [Create 1700000000000 100 (Some 2) 1 (dateMs 19680)]"
        "server_run (demoStore 5)
         [Create 1700000000000 100 (Some 2) 1 (dateMs 19680),
          Cancel 1700373600000 (Some 2) 100]"
        "mock_run (demoStore 5) [MockCreate 1700000000000 100 MockUserToken 1 19680]"
        1700373600000 MockUserToken 100
        "mock_run (demoStore 5)
         [MockCreate 1700000000000 100 MockUserToken 1 19680,
          MockCancel 1700373600000 MockUserToken 100]"]
      h1 h2 h3 c
    by simp
qed

section \<open>Availability of a class\<close>

text \<open>
  The mock's helper accepts a published class, and a scheduled class whose publish date is
  not after today. The server answers \<open>ClassNotAvailable\<close> for a draft class only: its test
  of the publish date compares the column's value with a string and is never true.
\<close>

lemma isClassAvailableForBooking_iff:
  "isClassAvailableForBooking now c \<longleftrightarrow>
     c_status c = Published \<or>
     (c_status c = Scheduled \<and> (\<exists>pd. publish_date c = Some pd \<and> pd \<le> todayOf now))"
  by (cases "c_status c") (auto simp: isClassAvailableForBooking_def Let_def split: option.splits)

lemma authenticateToken_Inl:
  "authenticateToken tok s = Inl e \<Longrightarrow> e = Unauthorized"
  by (auto simp: authenticateToken_def split: option.splits list.splits if_splits)

lemma server_create_ClassNotAvailable:
  "server_create now nid tok cid t s = Inl ClassNotAvailable \<longleftrightarrow>
     (\<exists>u c rest. authenticateToken tok s = Inr u \<and> u_role u = Member \<and> 1 \<le> cid \<and>
        isWithinBookingWindow now t \<and>
        filter (\<lambda>c. c_id c = cid) (classes s) = c # rest \<and> c_status c = Draft)"
  by (auto simp: server_create_def Let_def split: sum.splits list.splits if_splits
      dest: authenticateToken_Inl)

lemma mock_create_ClassNotAvailable:
  assumes "getUserByToken tok s = Some u" "- 5 < concessions u"
    and "find (\<lambda>c. c_id c = cid) (classes s) = Some c"
  shows "mock_create now nid tok cid d s = Inl ClassNotAvailable \<longleftrightarrow>
     \<not> (c_status c = Published \<or>
        (c_status c = Scheduled \<and> (\<exists>pd. publish_date c = Some pd \<and> pd \<le> todayOf now)))"
  using assms isClassAvailableForBooking_iff [of now c]
  by (auto simp: mock_create_def split: option.splits)

text \<open>
  Claim C7. Neither create consults the end date of a class. The class \<open>endedClass\<close> is
  scheduled, was published on day 19000 and ended on day 19670; on day 19675 a member asks
  for day 19676. The claim's condition calls the class not bookable, and the booking page's
  helper refuses it, but the server and the mock both create a confirmed booking. The
  server's publish-date test never fires either: \<open>futureClass\<close> is published only on day
  19700, the mock answers \<open>ClassNotAvailable\<close>, the server books it. A draft class is
  refused by both.
\<close>

theorem availability_ignores_end_date:
  "todayOf 1700000000000 = 19675 \<and>
   \<not> spec_bookableOn 19675 19676 endedClass \<and>
   \<not> ui_isClassAvailableForBooking 1700000000000 endedClass \<and>
   isClassAvailableForBooking 1700000000000 endedClass \<and>
   server_create 1700000000000 100 (Some 2) 1 (dateMs 19676) (classStore endedClass)
     = Inr (server_run (classStore endedClass)
              [Create 1700000000000 100 (Some 2) 1 (dateMs 19676)]) \<and>
   mock_create 1700000000000 100 MockUserToken 1 19676 (classStore endedClass)
     = Inr (mock_run (classStore endedClass)
              [MockCreate 1700000000000 100 MockUserToken 1 19676]) \<and>
   map (\<lambda>b. (user_id b, class_id b, booking_date b, status b))
       (bookings (server_run (classStore endedClass)
              [Create 1700000000000 100 (Some 2) 1 (dateMs 19676)]))
     = [(2, 1, 19676, Confirmed)] \<and>
   map (\<lambda>b. (user_id b, class_id b, booking_date b, status b))
       (bookings (mock_run (classStore endedClass)
              [MockCreate 1700000000000 100 MockUserToken 1 19676]))
     = [(2, 1, 19676, Confirmed)] \<and>
   \<not> spec_bookableOn 19675 19676 futureClass \<and>
   \<not> ui_isClassAvailableForBooking 1700000000000 futureClass \<and>
   server_create 1700000000000 100 (Some 2) 1 (dateMs 19676) (classStore futureClass)
     = Inr (server_run (classStore futureClass)
              [Create 1700000000000 100 (Some 2) 1 (dateMs 19676)]) \<and>
   map (\<lambda>b. (user_id b, class_id b, booking_date b, status b))
       (bookings (server_run (classStore futureClass)
              [Create 1700000000000 100 (Some 2) 1 (dateMs 19676)]))
     = [(2, 1, 19676, Confirmed)] \<and>
   mock_create 1700000000000 100 MockUserToken 1 19676 (classStore futureClass)
     = Inl ClassNotAvailable \<and>
   server_create 1700000000000 100 (Some 2) 1 (dateMs 19676) (classStore draftClass)
     = Inl ClassNotAvailable \<and>
   mock_create 1700000000000 100 MockUserToken 1 19676 (classStore draftClass)
     = Inl ClassNotAvailable"
  by code_simp

section \<open>Completing a class and undoing it\<close>

lemma map_complete_undo:
  assumes "\<forall>b \<in> set xs. class_id b = cid \<and> booking_date b = d \<longrightarrow> status b \<noteq> Completed"
  shows "map (\<lambda>b. if class_id b = cid \<and> booking_date b = d \<and> status b = Completed
                   then b\<lparr>status := Confirmed\<rparr> else b)
           (map (\<lambda>b. if class_id b = cid \<and> booking_date b = d \<and> status b = Confirmed
                      then b\<lparr>status := Completed\<rparr> else b) xs) = xs"
  using assms by (induction xs) auto

lemma count_after_complete:
  assumes "\<forall>b \<in> set xs. class_id b = cid \<and> booking_date b = d \<longrightarrow> status b \<noteq> Completed"
  shows "length (filter (\<lambda>b. class_id b = cid \<and> booking_date b = d \<and> status b = Completed)
           (map (\<lambda>b. if class_id b = cid \<and> booking_date b = d \<and> status b = Confirmed
                      then b\<lparr>status := Completed\<rparr> else b) xs))
         = length (filter (\<lambda>b. class_id b = cid \<and> booking_date b = d \<and> status b = Confirmed) xs)"
  using assms by (induction xs) auto

lemma no_confirmed_after_complete:
  "filter (\<lambda>b. class_id b = cid \<and> booking_date b = d \<and> status b = Confirmed)
     (map (\<lambda>b. if class_id b = cid \<and> booking_date b = d \<and> status b = Confirmed
                then b\<lparr>status := Completed\<rparr> else b) xs) = []"
  by (induction xs) auto

text \<open>
  The server's completeClass, called by an admin, returns the number of confirmed bookings
  of the pair, leaves none of them confirmed and touches no balance; when no booking of the
  pair was completed before, the undo returns the same number and restores the store.
\<close>

lemma server_complete_undo:
  assumes "authenticateToken tok s = Inr u" "u_role u = Admin" "1 \<le> cid"
    and "\<forall>b \<in> set (bookings s). class_id b = cid \<and> booking_date b = storedDate t
           \<longrightarrow> status b \<noteq> Completed"
  shows "\<exists>s1. server_completeClass tok cid t s = Inr (confirmedCount cid (storedDate t) s, s1) \<and>
              users s1 = users s \<and> confirmedCount cid (storedDate t) s1 = 0 \<and>
              server_undoCompleteClass tok cid t s1
                = Inr (confirmedCount cid (storedDate t) s, s)"
proof -
  let ?d = "storedDate t"
  let ?g = "\<lambda>b. if class_id b = cid \<and> booking_date b = ?d \<and> status b = Confirmed
                then b\<lparr>status := Completed\<rparr> else b"
  let ?s1 = "s\<lparr>bookings := map ?g (bookings s)\<rparr>"
  have a: "authenticateToken tok ?s1 = Inr u"
    using assms(1) by (cases tok) (simp_all add: authenticateToken_def)
  have 1: "server_completeClass tok cid t s = Inr (confirmedCount cid ?d s, ?s1)"
    using assms(1-3) by (simp add: server_completeClass_def confirmedCount_def Let_def)
  have 2: "confirmedCount cid ?d ?s1 = 0"
    unfolding confirmedCount_def using no_confirmed_after_complete [of cid ?d "bookings s"]
    by simp
  have 3: "server_undoCompleteClass tok cid t ?s1 = Inr (confirmedCount cid ?d s, s)"
    using assms(2,3) a map_complete_undo [OF assms(4)] count_after_complete [OF assms(4)]
    unfolding server_undoCompleteClass_def confirmedCount_def Let_def
    by (simp del: map_map filter_map length_map)
  from 1 2 3 show ?thesis by (intro exI [of _ ?s1]) simp
qed

text \<open>
  Claim C8. The mock's completeClass counts every booking of the pair, whatever its status,
  after the update. On a store whose only booking of the pair is cancelled it changes
  nothing and returns 1, where the server returns 0.
\<close>

theorem mock_complete_count_mismatch:
  "map status (bookings (mock_run (demoStore 5)
      [MockCreate 1700000000000 100 MockUserToken 1 19680,
       MockCancel 1700000000000 MockUserToken 100]))
     = [Cancelled] \<and>
   mock_completeClass 1 19680 (mock_run (demoStore 5)
      [MockCreate 1700000000000 100 MockUserToken 1 19680,
       MockCancel 1700000000000 MockUserToken 100])
     = (1, mock_run (demoStore 5)
      [MockCreate 1700000000000 100 MockUserToken 1 19680,
       MockCancel 1700000000000 MockUserToken 100]) \<and>
   server_completeClass (Some 1) 1 (dateMs 19680) (mock_run (demoStore 5)
      [MockCreate 1700000000000 100 MockUserToken 1 19680,
       MockCancel 1700000000000 MockUserToken 100])
     = Inr (0, mock_run (demoStore 5)
      [MockCreate 1700000000000 100 MockUserToken 1 19680,
       MockCancel 1700000000000 MockUserToken 100])"
  by code_simp

section \<open>The mock against the server\<close>

text \<open>
  The mock's create has no booking-window check and no capacity check: it never answers
  \<open>InvalidBookingDate\<close> or \<open>ClassFull\<close>. Its cancel never answers \<open>Forbidden\<close> or
  \<open>InvalidTransition\<close>.
\<close>

lemma mock_create_errors:
  "mock_create now nid tok cid d s \<noteq> Inl InvalidBookingDate \<and>
   mock_create now nid tok cid d s \<noteq> Inl ClassFull"
  by (auto simp: mock_create_def Let_def split: option.splits if_splits)

lemma mock_cancel_errors:
  "mock_cancel now tok bid s \<noteq> Inl Forbidden \<and>
   mock_cancel now tok bid s \<noteq> Inl InvalidTransition"
  by (auto simp: mock_cancel_def Let_def split: option.splits if_splits)

text \<open>
  Claim C9. The mock and the server do not accept the same requests. With the one seat of
  the class taken by another member, the server answers \<open>ClassFull\<close> and the mock books a
  second confirmed booking. For a date 25 days ahead the server answers
  \<open>InvalidBookingDate\<close> and the mock books. An admin's create is \<open>Forbidden\<close> on the server and
  booked by the mock. An admin's cancel of a member's booking is accepted by the server,
  while the mock, which looks the booking up among the requester's own, answers \<open>NotFound\<close>.
  A member's cancel one hour before the class is accepted by both, but the server ends with
  a cancelled booking and a refund, the mock with a late-cancelled booking and no refund.
\<close>

theorem mock_server_disagree:
  "map (\<lambda>b. (user_id b, class_id b, booking_date b, status b))
      (bookings (server_run (demoStore 5) [Create 1700000000000 100 (Some 3) 1 (dateMs 19676)]))
     = [(3, 1, 19676, Confirmed)] \<and>
   max_capacity demoClass = 1 \<and>
   server_create 1700000000000 101 (Some 2) 1 (dateMs 19676)
      (server_run (demoStore 5) [Create 1700000000000 100 (Some 3) 1 (dateMs 19676)])
     = Inl ClassFull \<and>
   mock_create 1700000000000 101 MockUserToken 1 19676
      (server_run (demoStore 5) [Create 1700000000000 100 (Some 3) 1 (dateMs 19676)])
     = Inr (mock_run
         (server_run (demoStore 5) [Create 1700000000000 100 (Some 3) 1 (dateMs 19676)])
         [MockCreate 1700000000000 101 MockUserToken 1 19676]) \<and>
   confirmedCount 1 19676 (mock_run
         (server_run (demoStore 5) [Create 1700000000000 100 (Some 3) 1 (dateMs 19676)])
         [MockCreate 1700000000000 101 MockUserToken 1 19676]) = 2 \<and>
   server_create 1700000000000 100 (Some 2) 1 (dateMs 19700) (demoStore 5)
     = Inl InvalidBookingDate \<and>
   mock_create 1700000000000 100 MockUserToken 1 19700 (demoStore 5)
     = Inr (mock_run (demoStore 5) [MockCreate 1700000000000 100 MockUserToken 1 19700]) \<and>
   map (\<lambda>b. (user_id b, class_id b, booking_date b, status b))
      (bookings (mock_run (demoStore 5) [MockCreate 1700000000000 100 MockUserToken 1 19700]))
     = [(2, 1, 19700, Confirmed)] \<and>
   server_create 1700000000000 100 (Some 1) 1 (dateMs 19676) (demoStore 5) = Inl Forbidden \<and>
   mock_create 1700000000000 100 MockAdminToken 1 19676 (demoStore 5)
     = Inr (mock_run (demoStore 5) [MockCreate 1700000000000 100 MockAdminToken 1 19676]) \<and>
   map (\<lambda>b. (user_id b, class_id b, booking_date b, status b))
      (bookings (mock_run (demoStore 5) [MockCreate 1700000000000 100 MockAdminToken 1 19676]))
     = [(1, 1, 19676, Confirmed)] \<and>
   balanceOf 1 (mock_run (demoStore 5) [MockCreate 1700000000000 100 MockAdminToken 1 19676])
     = Some 9 \<and>
   server_cancel 1700000000000 (Some 1) 100
      (server_run (demoStore 5) [Create 1700000000000 100 (Some 2) 1 (dateMs 19680)])
     = Inr (server_run (demoStore 5)
         [Create 1700000000000 100 (Some 2) 1 (dateMs 19680),
          Cancel 1700000000000 (Some 1) 100]) \<and>
   map status (bookings (server_run (demoStore 5)
         [Create 1700000000000 100 (Some 2) 1 (dateMs 19680),
          Cancel 1700000000000 (Some 1) 100]))
     = [Cancelled] \<and>
   mock_cancel 1700000000000 MockAdminToken 100
      (server_run (demoStore 5) [Create 1700000000000 100 (Some 2) 1 (dateMs 19680)])
     = Inl NotFound \<and>
   server_run (demoStore 5) [Create 1700000000000 100 (Some 2) 1 (dateMs 19680)]
     = mock_run (demoStore 5) [MockCreate 1700000000000 100 MockUserToken 1 19680] \<and>
   (map status (bookings (server_run (demoStore 5)
         [Create 1700000000000 100 (Some 2) 1 (dateMs 19680),
          Cancel 1700373600000 (Some 2) 100])),
    balanceOf 2 (server_run (demoStore 5)
         [Create 1700000000000 100 (Some 2) 1 (dateMs 19680),
          Cancel 1700373600000 (Some 2) 100]))
     = ([Cancelled], Some 5) \<and>
   (map status (bookings (mock_run (demoStore 5)
         [MockCreate 1700000000000 100 MockUserToken 1 19680,
          MockCancel 1700373600000 MockUserToken 100])),
    balanceOf 2 (mock_run (demoStore 5)
         [MockCreate 1700000000000 100 MockUserToken 1 19680,
          MockCancel 1700373600000 MockUserToken 100]))
     = ([LateCancelled], Some 4)"
  by code_simp

section \<open>The administrative balance update\<close>

lemma update_concessions_server:
  assumes "balanceOf uid s = Some b"
  shows "\<exists>s'. server_updateConcessions uid delta s = Inr s' \<and>
              balanceOf uid s' = Some (b + delta)"
proof -
  from assms obtain u where u: "find (\<lambda>u. u_id u = uid) (users s) = Some u" "concessions u = b"
    by (auto simp: balanceOf_def)
  then obtain rest where f: "filter (\<lambda>u. u_id u = uid) (users s) = u # rest"
    by (auto simp: find_filter_conv split: list.splits)
  let ?g = "\<lambda>x. if u_id x = uid then x\<lparr>concessions := b + delta\<rparr> else x"
  have "find (\<lambda>u. u_id u = uid) (map ?g (users s))
          = map_option ?g (find (\<lambda>u. u_id u = uid) (users s))"
    by (rule find_map_preserving) simp
  moreover from u(1) have "u_id u = uid" by (auto simp: find_Some_iff)
  ultimately show ?thesis using u f
    by (simp add: server_updateConcessions_def balanceOf_def Let_def)
qed

lemma update_concessions_mock:
  assumes "balanceOf uid s = Some b"
  shows "\<exists>s'. mock_updateConcessions uid delta s = Inr s' \<and>
              balanceOf uid s' = Some (b + delta)"
proof -
  from assms obtain i where i: "findIndex (\<lambda>u. u_id u = uid) (users s) = Some i"
      and b: "concessions (users s ! i) = b"
    by (auto simp: balanceOf_def findIndex_find)
  from findIndex_Some [OF i] have "u_id (users s ! i) = uid" by simp
  then have "find (\<lambda>u. u_id u = uid) ((users s)[i := (users s ! i)\<lparr>concessions := b + delta\<rparr>])
      = Some ((users s ! i)\<lparr>concessions := b + delta\<rparr>)"
    using i by (intro find_update_first) simp_all
  with i b show ?thesis
    by (simp add: mock_updateConcessions_def balanceOf_def Let_def)
qed

text \<open>
  Claim C10. The admin operation that updates a user's concessions adds the signed delta to
  the current balance with no lower bound, on the server and in the mock: whatever the
  balance \<open>b\<close> of an existing user and whatever the delta, the operation succeeds and the
  balance becomes \<open>b + delta\<close>. At \<open>b = -5\<close> and \<open>delta = -1\<close> the balance becomes \<open>-6\<close>.
\<close>

theorem update_concessions_no_floor:
  "balanceOf uid s = Some b \<Longrightarrow>
   (\<exists>s'. server_updateConcessions uid delta s = Inr s' \<and> balanceOf uid s' = Some (b + delta)) \<and>
   (\<exists>s'. mock_updateConcessions uid delta s = Inr s' \<and> balanceOf uid s' = Some (b + delta))"
  using update_concessions_server update_concessions_mock by blast

theorem update_concessions_no_floor_witness:
  "balanceOf 2 \<lparr>users = [\<lparr>u_id = 2, email = ''user@gym.com'', u_role = Member,
                         concessions = - 5, is_active = True\<rparr>],
                classes = [], bookings = []\<rparr> = Some (- 5) \<and>
   (\<exists>s'. server_updateConcessions 2 (- 1)
            \<lparr>users = [\<lparr>u_id = 2, email = ''user@gym.com'', u_role = Member,
                         concessions = - 5, is_active = True\<rparr>],
             classes = [], bookings = []\<rparr> = Inr s' \<and>
          balanceOf 2 s' = Some (- 6)) \<and>
   (\<exists>s'. mock_updateConcessions 2 (- 1)
            \<lparr>users = [\<lparr>u_id = 2, email = ''user@gym.com'', u_role = Member,
                         concessions = - 5, is_active = True\<rparr>],
             classes = [], bookings = []\<rparr> = Inr s' \<and>
          balanceOf 2 s' = Some (- 6))"
proof -
  have h: "balanceOf 2 \<lparr>users = [\<lparr>u_id = 2, email = ''user@gym.com'', u_role = Member,
                         concessions = - 5, is_active = True\<rparr>],
                classes = [], bookings = []\<rparr> = Some (- 5)"
    by (simp add: balanceOf_def)
  show ?thesis
    using h update_concessions_no_floor [OF h, of "- 1"] by simp
qed

end
